theory Spec2Isabelle
  imports Complex_Main "HOL-Library.Sublist"
begin

section \<open>Strings\<close>

text \<open>
  A JavaScript string is modelled as a \<^typ>\<open>string\<close>: a list of 8-bit code units (the
  Latin-1 range of UTF-16). \<open>length\<close> is the source's \<open>.length\<close>.

  Case mapping acts on the ASCII letters. JavaScript maps the other Latin-1 letters to
  characters that are not ASCII (or, for \<open>toUpperCase\<close>, to the two letters "SS"), and the
  program only ever compares case-mapped text against ASCII literals in which no "SS"
  occurs, so on Latin-1 text none of its tests observes the difference. Beyond Latin-1
  two characters have an ASCII letter as their upper case, U+0131 and U+017F. Where
  that decides what the program does with its input, in the builders of the
  drive-letter commands, the input is modelled with all its code points (see there).
  Everywhere else text beyond Latin-1 is outside the model: there the lower case of
  U+212A and of U+0130 starts with an ASCII letter, and \<open>\s\<close> has further members.
\<close>

definition upper_letters :: string where
  "upper_letters = ''ABCDEFGHIJKLMNOPQRSTUVWXYZ''"

definition lower_letters :: string where
  "lower_letters = ''abcdefghijklmnopqrstuvwxyz''"

definition to_lower :: "char \<Rightarrow> char" where
  "to_lower c = (case map_of (zip upper_letters lower_letters) c of Some d \<Rightarrow> d | None \<Rightarrow> c)"

definition to_upper :: "char \<Rightarrow> char" where
  "to_upper c = (case map_of (zip lower_letters upper_letters) c of Some d \<Rightarrow> d | None \<Rightarrow> c)"

definition toLowerCase :: "string \<Rightarrow> string" where
  "toLowerCase s = map to_lower s"

definition toUpperCase :: "string \<Rightarrow> string" where
  "toUpperCase s = map to_upper s"

text \<open>\<open>hay.includes(needle)\<close>: the needle starts at some position of the haystack.\<close>

fun str_includes :: "string \<Rightarrow> string \<Rightarrow> bool" where
  "str_includes [] needle = (needle = [])"
| "str_includes (c # cs) needle = (prefix needle (c # cs) \<or> str_includes cs needle)"

definition startsWith :: "string \<Rightarrow> string \<Rightarrow> bool" where
  "startsWith s p = prefix p s"

text \<open>
  White space as \<open>trim\<close> and the regular expression class \<open>\s\<close> see it: tab, line feed,
  vertical tab, form feed, carriage return, space and the no-break space.
\<close>

definition is_space :: "char \<Rightarrow> bool" where
  "is_space c = (c \<in> set [CHR 0x09, CHR 0x0A, CHR 0x0B, CHR 0x0C, CHR 0x0D, CHR 0x20, CHR 0xA0])"

definition is_digit :: "char \<Rightarrow> bool" where
  "is_digit c = (c \<in> set ''0123456789'')"

definition trim :: "string \<Rightarrow> string" where
  "trim s = rev (dropWhile is_space (rev (dropWhile is_space s)))"

text \<open>\<open>s.split('\n')\<close>: the pieces between line feeds; an empty string gives one empty piece.\<close>

fun split_on :: "char \<Rightarrow> string \<Rightarrow> string list" where
  "split_on d [] = [[]]"
| "split_on d (c # cs) =
     (if c = d then [] # split_on d cs
      else (case split_on d cs of [] \<Rightarrow> [[c]] | l # ls \<Rightarrow> (c # l) # ls))"

text \<open>
  \<open>s.split(/\s+/)\<close>: the pieces between maximal runs of white space. A run at the start
  or at the end of the string leaves an empty piece there.
\<close>

function split_ws :: "string \<Rightarrow> string list" where
  "split_ws [] = [[]]"
| "split_ws (c # cs) =
     (if is_space c then [] # split_ws (dropWhile is_space cs)
      else (case split_ws cs of [] \<Rightarrow> [[c]] | t # ts \<Rightarrow> (c # t) # ts))"
  by pat_completeness auto
termination
  by (relation "measure length") (simp_all add: le_imp_less_Suc length_dropWhile_le)

text \<open>\<open>parts.join(sep)\<close>.\<close>

fun join :: "string \<Rightarrow> string list \<Rightarrow> string" where
  "join sep [] = []"
| "join sep [x] = x"
| "join sep (x # y # ys) = x @ sep @ join sep (y # ys)"

text \<open>\<open>xs.findIndex(p)\<close>, with \<open>None\<close> for the source's \<open>-1\<close>.\<close>

fun findIndex :: "('a \<Rightarrow> bool) \<Rightarrow> 'a list \<Rightarrow> nat option" where
  "findIndex p [] = None"
| "findIndex p (x # xs) = (if p x then Some 0 else map_option Suc (findIndex p xs))"

text \<open>\<open>xs[i]\<close>, with \<open>None\<close> for the source's \<open>undefined\<close> beyond the end.\<close>

definition nth_opt :: "'a list \<Rightarrow> nat \<Rightarrow> 'a option" where
  "nth_opt xs i = (if i < length xs then Some (xs ! i) else None)"

text \<open>\<open>xs.slice(i, j)\<close> and \<open>xs.slice(i)\<close> for indices that are not negative.\<close>

definition slice :: "'a list \<Rightarrow> nat \<Rightarrow> nat \<Rightarrow> 'a list" where
  "slice xs i j = take (j - i) (drop i xs)"

text \<open>
  \<open>a || b\<close> on strings: the left operand unless it is \<open>undefined\<close> (\<open>None\<close>) or empty.
\<close>

definition or_else :: "string option \<Rightarrow> string \<Rightarrow> string" where
  "or_else a b = (case a of None \<Rightarrow> b | Some s \<Rightarrow> if s \<noteq> [] then s else b)"

text \<open>Decimal digits of a natural number, as a template literal renders an integer.\<close>

fun digits_of :: "nat \<Rightarrow> string" where
  "digits_of n =
     (if n < 10 then [''0123456789'' ! n]
      else digits_of (n div 10) @ [''0123456789'' ! (n mod 10)])"

declare digits_of.simps [simp del]

section \<open>Error classes\<close>

text \<open>
  \<open>DiskpartError\<close> and its subclasses: each subclass fixes the machine code and passes
  message and details on. The record is generic in the type of its texts, \<^typ>\<open>string\<close>
  everywhere but in the builders of the drive-letter commands, whose argument is
  modelled with all its code points.
\<close>

record 's DiskpartError =
  err_message :: 's
  err_code :: string
  err_details :: "'s option"

definition PrivilegeError :: "'s \<Rightarrow> 's option \<Rightarrow> 's DiskpartError" where
  "PrivilegeError m d = \<lparr>err_message = m, err_code = ''PRIVILEGE_ERROR'', err_details = d\<rparr>"

definition DiskNotFoundError :: "nat \<Rightarrow> string option \<Rightarrow> string DiskpartError" where
  "DiskNotFoundError diskId d =
     \<lparr>err_message = ''Disk '' @ digits_of diskId @ '' not found'',
      err_code = ''DISK_NOT_FOUND'', err_details = d\<rparr>"

definition PartitionNotFoundError :: "nat \<Rightarrow> string option \<Rightarrow> string DiskpartError" where
  "PartitionNotFoundError partitionId d =
     \<lparr>err_message = ''Partition '' @ digits_of partitionId @ '' not found'',
      err_code = ''PARTITION_NOT_FOUND'', err_details = d\<rparr>"

definition CommandExecutionError :: "'s \<Rightarrow> 's option \<Rightarrow> 's DiskpartError" where
  "CommandExecutionError m d =
     \<lparr>err_message = m, err_code = ''COMMAND_EXECUTION_ERROR'', err_details = d\<rparr>"

definition CommandTimeoutError :: "nat \<Rightarrow> string option \<Rightarrow> string DiskpartError" where
  "CommandTimeoutError timeout d =
     \<lparr>err_message = ''Command timed out after '' @ digits_of timeout @ ''ms'',
      err_code = ''COMMAND_TIMEOUT'', err_details = d\<rparr>"

definition ParseError :: "'s \<Rightarrow> 's option \<Rightarrow> 's DiskpartError" where
  "ParseError m d = \<lparr>err_message = m, err_code = ''PARSE_ERROR'', err_details = d\<rparr>"

definition InvalidCommandError :: "'s \<Rightarrow> 's option \<Rightarrow> 's DiskpartError" where
  "InvalidCommandError m d = \<lparr>err_message = m, err_code = ''INVALID_COMMAND'', err_details = d\<rparr>"

definition AccessDeniedError :: "string DiskpartError" where
  "AccessDeniedError =
     \<lparr>err_message = ''Access denied to disk or partition'', err_code = ''ACCESS_DENIED'',
      err_details = None\<rparr>"

text \<open>The machine codes of the eight subclasses.\<close>

definition taxonomy :: "string list" where
  "taxonomy =
     [''PRIVILEGE_ERROR'', ''DISK_NOT_FOUND'', ''PARTITION_NOT_FOUND'',
      ''COMMAND_EXECUTION_ERROR'', ''COMMAND_TIMEOUT'', ''PARSE_ERROR'', ''INVALID_COMMAND'',
      ''ACCESS_DENIED'']"

section \<open>Command executor\<close>

text \<open>
  The result envelope. \<open>data\<close> is untyped in the source; it holds either the captured
  streams of the subprocess (with or without the combined \<open>output\<close>) or what a parser
  returned.
\<close>

datatype 'a payload =
  Streams (output_text: "string option") (stdout: string) (stderr: string)
| Parsed 'a

text \<open>\<open>data?.output\<close> and \<open>data?.stdout\<close>.\<close>

definition data_output :: "'a payload option \<Rightarrow> string option" where
  "data_output d = (case d of Some (Streams out so se) \<Rightarrow> out | _ \<Rightarrow> None)"

definition data_stdout :: "'a payload option \<Rightarrow> string option" where
  "data_stdout d = (case d of Some (Streams out so se) \<Rightarrow> Some so | _ \<Rightarrow> None)"

record 'a CommandResult =
  success :: bool
  message :: string
  errorCode :: "string option"
  details :: "string option"
  data :: "'a payload option"

text \<open>
  What one call meets outside the program: the answer of the elevation probe, the
  name chosen for the temporary script, whether writing it fails (with the message of
  the file system's error), and how the subprocess ends. A rejected subprocess call
  carries the error object's \<open>killed\<close>, \<open>signal\<close> and \<open>message\<close>.
\<close>

datatype thrown = Thrown (killed: bool) (signal: "string option") (thrown_message: "string option")

datatype exec_outcome = Exited string string | Rejected thrown

record env =
  isRunningAsAdmin :: bool
  scriptPath :: string
  writeFails :: "string option"
  execOutcome :: exec_outcome

text \<open>The effects of a call, in the order in which they happen.\<close>

datatype event =
  LogError string
| LogCommand string
| LogCommandResult string bool
| WriteFile string string
| Exec string nat
| DeleteTempScript string
| ParserCall string

definition DEFAULT_TIMEOUT :: nat where
  "DEFAULT_TIMEOUT = 30000"

definition DESTRUCTIVE_TIMEOUT :: nat where
  "DESTRUCTIVE_TIMEOUT = 60000"

definition isCommandSuccessful :: "string \<Rightarrow> bool" where
  "isCommandSuccessful out =
     (let lowerOutput = toLowerCase out in
      if str_includes lowerOutput ''diskpart successfully'' then True
      else if str_includes lowerOutput ''completed successfully'' then True
      else if str_includes lowerOutput ''error'' then False
      else if str_includes lowerOutput ''failed'' then False
      else if str_includes lowerOutput ''access is denied'' then False
      else if str_includes lowerOutput ''cannot'' then False
      else if str_includes lowerOutput ''invalid'' then False
      else if str_includes lowerOutput ''not found'' then False
      else if str_includes lowerOutput ''disk ###'' \<or> str_includes lowerOutput ''volume ###''
              \<or> str_includes lowerOutput ''partition ###'' then True
      else length (trim out) > 0)"

definition extractErrorFromOutput :: "string \<Rightarrow> string option" where
  "extractErrorFromOutput out =
     List.find
       (\<lambda>line. let lowerLine = toLowerCase line in
          str_includes lowerLine ''error'' \<or> str_includes lowerLine ''failed''
          \<or> str_includes lowerLine ''denied'' \<or> str_includes lowerLine ''cannot''
          \<or> str_includes lowerLine ''invalid'' \<or> str_includes lowerLine ''not found'')
       (map trim (split_on CHR 0x0A out))"

text \<open>
  \<open>createTempScript\<close>: the write either succeeds and gives the path, or the function
  throws a \<open>CommandExecutionError\<close>, an object without \<open>killed\<close> or \<open>signal\<close>.
\<close>

definition createTempScript :: "env \<Rightarrow> string \<Rightarrow> (thrown + string) \<times> event list" where
  "createTempScript e command =
     (case writeFails e of
        None \<Rightarrow> (Inr (scriptPath e), [WriteFile (scriptPath e) command])
      | Some m \<Rightarrow>
          (Inl (Thrown False None
                  (Some (err_message
                     (CommandExecutionError ''Failed to create temporary script file'' (Some m))))),
           [WriteFile (scriptPath e) command]))"

text \<open>The outer \<open>catch\<close> of \<open>executeDiskpartCommand\<close>.\<close>

definition handleThrown ::
  "string \<Rightarrow> nat \<Rightarrow> thrown \<Rightarrow> 'a CommandResult \<times> event list" where
  "handleThrown command timeout error =
     (if killed error \<or> signal error = Some ''SIGTERM'' then
        (\<lparr>success = False,
          message = err_message (CommandTimeoutError timeout None),
          errorCode = Some (err_code (CommandTimeoutError timeout None)),
          details = Some (''Command exceeded timeout of '' @ digits_of timeout @ ''ms''),
          data = None\<rparr>,
         [LogError ''Command timeout''])
      else if (case thrown_message error of
                 None \<Rightarrow> False
               | Some m \<Rightarrow> str_includes (toLowerCase m) ''access is denied'') then
        (\<lparr>success = False,
          message = err_message AccessDeniedError,
          errorCode = Some (err_code AccessDeniedError),
          details = thrown_message error,
          data = None\<rparr>,
         [LogError ''Access denied''])
      else
        (\<lparr>success = False,
          message = err_message (CommandExecutionError ''Failed to execute Diskpart command''
                                  (thrown_message error)),
          errorCode = Some (err_code (CommandExecutionError ''Failed to execute Diskpart command''
                                  (thrown_message error))),
          details = thrown_message error,
          data = None\<rparr>,
         [LogError ''Command execution failed'']))"

definition executeDiskpartCommand ::
  "env \<Rightarrow> string \<Rightarrow> nat \<Rightarrow> 'a CommandResult \<times> event list" where
  "executeDiskpartCommand e command timeout =
     (if \<not> isRunningAsAdmin e then
        (let error = PrivilegeError ''Administrator privileges required to execute Diskpart commands''
                       (Some ''Please restart the application as administrator'')
         in (\<lparr>success = False, message = err_message error, errorCode = Some (err_code error),
              details = err_details error, data = None\<rparr>,
             [LogError ''Privilege check failed'']))
      else
        (case createTempScript e command of
           (Inl error, evs) \<Rightarrow>
             (let (r, evs') = handleThrown command timeout error
              in (r, [LogCommand command] @ evs @ evs'))
         | (Inr path, evs) \<Rightarrow>
             (let spawn = Exec (''diskpart /s '' @ [CHR 0x22] @ path @ [CHR 0x22]) timeout in
              case execOutcome e of
                Rejected execError \<Rightarrow>
                  (let (r, evs') = handleThrown command timeout execError
                   in (r, [LogCommand command] @ evs @ [spawn, DeleteTempScript path] @ evs'))
              | Exited out err \<Rightarrow>
                  (let outp = or_else (Some out) (or_else (Some err) []);
                       ok = isCommandSuccessful outp;
                       evs' = [LogCommand command] @ evs
                              @ [spawn, DeleteTempScript path, LogCommandResult command ok]
                   in if \<not> ok then
                        (\<lparr>success = False,
                          message = or_else (extractErrorFromOutput outp) ''Command failed'',
                          errorCode = Some ''COMMAND_FAILED'',
                          details = Some outp,
                          data = Some (Streams None out err)\<rparr>, evs')
                      else
                        (\<lparr>success = True,
                          message = ''Command executed successfully'',
                          errorCode = None,
                          details = None,
                          data = Some (Streams (Some outp) out err)\<rparr>, evs')))))"

definition executeDestructiveCommand :: "env \<Rightarrow> string \<Rightarrow> 'a CommandResult \<times> event list" where
  "executeDestructiveCommand e command = executeDiskpartCommand e command DESTRUCTIVE_TIMEOUT"

text \<open>
  What a parser can throw: an \<open>Error\<close> object with its message, or any other value with
  its rendering by \<open>String\<close>.
\<close>

datatype exn = ErrorObject string | OtherValue string

definition exn_text :: "exn \<Rightarrow> string" where
  "exn_text x = (case x of ErrorObject m \<Rightarrow> m | OtherValue v \<Rightarrow> v)"

definition executeAndParse ::
  "env \<Rightarrow> string \<Rightarrow> (string \<Rightarrow> exn + 'a) \<Rightarrow> nat option \<Rightarrow> 'a CommandResult \<times> event list" where
  "executeAndParse e command parser timeout =
     (let (result, evs) =
            executeDiskpartCommand e command
              (case timeout of None \<Rightarrow> DEFAULT_TIMEOUT | Some t \<Rightarrow> t)
      in if \<not> success result then (result, evs)
         else
           (let outp = or_else (data_output (data result)) (or_else (data_stdout (data result)) [])
            in case parser outp of
                 Inr parsedData \<Rightarrow>
                   (\<lparr>success = True,
                     message = ''Command executed and parsed successfully'',
                     errorCode = None,
                     details = None,
                     data = Some (Parsed parsedData)\<rparr>,
                    evs @ [ParserCall outp])
               | Inl error \<Rightarrow>
                   (\<lparr>success = False,
                     message = ''Failed to parse command output'',
                     errorCode = Some ''PARSE_ERROR'',
                     details = Some (exn_text error),
                     data = data result\<rparr>,
                    evs @ [ParserCall outp, LogError ''Failed to parse command output''])))"

section \<open>Command builder\<close>

text \<open>
  A JavaScript number: a finite value or one of the three that are not. The finite
  values are taken from the rationals, which hold every double, so a statement about
  all of them covers every number the program can receive. \<open>Number.isInteger\<close> and the
  comparisons with a constant are exact on them; a comparison with \<open>NaN\<close> is false.
\<close>

datatype number = Finite rat | NaN | PosInfinity | NegInfinity

fun isInteger :: "number \<Rightarrow> bool" where
  "isInteger (Finite q) = (of_int \<lfloor>q\<rfloor> = q)"
| "isInteger n = False"

fun lt :: "number \<Rightarrow> rat \<Rightarrow> bool" where
  "lt (Finite q) b = (q < b)"
| "lt NegInfinity b = True"
| "lt n b = False"

fun le :: "number \<Rightarrow> rat \<Rightarrow> bool" where
  "le (Finite q) b = (q \<le> b)"
| "le NegInfinity b = True"
| "le n b = False"

text \<open>
  The builders render numbers inside template literals. The rendering of a number is
  the language's, not the program's: every builder that renders one takes it as the
  parameter \<open>str\<close>.
\<close>

definition buildListDisksCommand :: string where
  "buildListDisksCommand = ''list disk''"

definition buildListVolumesCommand :: string where
  "buildListVolumesCommand = ''list volume''"

definition buildListPartitionsCommand :: string where
  "buildListPartitionsCommand = ''list partition''"

definition buildSelectDiskCommand :: "(number \<Rightarrow> string) \<Rightarrow> number \<Rightarrow> string DiskpartError + string" where
  "buildSelectDiskCommand str diskNumber =
     (if \<not> isInteger diskNumber \<or> lt diskNumber 0 then
        Inl (InvalidCommandError (''Invalid disk number: '' @ str diskNumber) None)
      else Inr (''select disk '' @ str diskNumber))"

definition buildDetailDiskCommand :: string where
  "buildDetailDiskCommand = ''detail disk''"

definition buildSelectPartitionCommand ::
  "(number \<Rightarrow> string) \<Rightarrow> number \<Rightarrow> string DiskpartError + string" where
  "buildSelectPartitionCommand str partitionNumber =
     (if \<not> isInteger partitionNumber \<or> lt partitionNumber 1 then
        Inl (InvalidCommandError (''Invalid partition number: '' @ str partitionNumber) None)
      else Inr (''select partition '' @ str partitionNumber))"

definition buildCleanDiskCommand :: string where
  "buildCleanDiskCommand = ''clean''"

definition buildCleanAllCommand :: string where
  "buildCleanAllCommand = ''clean all''"

definition buildCreatePartitionCommand ::
  "(number \<Rightarrow> string) \<Rightarrow> number option \<Rightarrow> string DiskpartError + string" where
  "buildCreatePartitionCommand str size' =
     (case size' of
        Some sz \<Rightarrow>
          if \<not> isInteger sz \<or> le sz 0 then
            Inl (InvalidCommandError (''Invalid partition size: '' @ str sz) None)
          else Inr (''create partition primary size='' @ str sz)
      | None \<Rightarrow> Inr ''create partition primary'')"

definition buildDeletePartitionCommand :: string where
  "buildDeletePartitionCommand = ''delete partition''"

definition validFileSystems :: "string list" where
  "validFileSystems = [''NTFS'', ''FAT32'', ''exFAT'', ''FAT'']"

text \<open>
  \<open>label\<close> and \<open>quick\<close> are optional; \<open>quick\<close> defaults to true. \<open>if (label)\<close> holds for
  a label that is given and not empty.
\<close>

definition buildFormatVolumeCommand ::
  "string \<Rightarrow> string option \<Rightarrow> bool option \<Rightarrow> string DiskpartError + string" where
  "buildFormatVolumeCommand fileSystem label quick =
     (let fsUpper = toUpperCase fileSystem in
      if fsUpper \<notin> set validFileSystems then
        Inl (InvalidCommandError
               (''Invalid file system: '' @ fileSystem @ ''. Must be one of: ''
                @ join '', '' validFileSystems) None)
      else
        (let command = ''format fs='' @ fsUpper;
             maxLength = (if fsUpper = ''NTFS'' then 32 else 11 :: nat);
             quoted = (case label of
                         None \<Rightarrow> Inr command
                       | Some l \<Rightarrow>
                           if l = [] then Inr command
                           else if length l > maxLength then
                             Inl (InvalidCommandError
                                    (''Label too long: '' @ digits_of (length l)
                                     @ '' characters (max '' @ digits_of maxLength @ '' for ''
                                     @ fsUpper @ '')'') None)
                           else Inr (command @ '' label='' @ [CHR 0x22] @ l @ [CHR 0x22]))
         in case quoted of
              Inl err \<Rightarrow> Inl err
            | Inr command' \<Rightarrow>
                if (case quick of None \<Rightarrow> True | Some q \<Rightarrow> q) then Inr (command' @ '' quick'')
                else Inr command'))"

text \<open>
  The argument of the two drive-letter builders is modelled with all its characters: a
  list of Unicode code points (a lone surrogate counts as one). \<open>widen\<close> embeds the
  program's literals.

  \<open>toUpperCase\<close> maps code point by code point. On ASCII it maps the lower-case letters
  and leaves the rest; U+0131 (dotless i) has the upper case \<open>I\<close> and U+017F (long s) the
  upper case \<open>S\<close>. The upper case of every other character is the Unicode table's, which
  may be one character or several: it is the parameter \<open>table\<close>.
\<close>

type_synonym ustring = "nat list"

definition widen :: "string \<Rightarrow> ustring" where
  "widen s = map of_char s"

definition upper_of :: "(nat \<Rightarrow> ustring) \<Rightarrow> nat \<Rightarrow> ustring" where
  "upper_of table c =
     (if 97 \<le> c \<and> c \<le> 122 then [c - 32]
      else if c < 128 then [c]
      else if c = 0x131 then [0x49]
      else if c = 0x17F then [0x53]
      else table c)"

definition toUpperCase_cp :: "(nat \<Rightarrow> ustring) \<Rightarrow> ustring \<Rightarrow> ustring" where
  "toUpperCase_cp table s = concat (map (upper_of table) s)"

text \<open>
  \<open>/^[A-Z]$/.test(s)\<close>: the string is one character long and that character is an
  upper-case ASCII letter.
\<close>

definition is_single_upper :: "ustring \<Rightarrow> bool" where
  "is_single_upper s = (case s of [c] \<Rightarrow> 65 \<le> c \<and> c \<le> 90 | _ \<Rightarrow> False)"

definition buildAssignLetterCommand ::
  "(nat \<Rightarrow> ustring) \<Rightarrow> ustring \<Rightarrow> ustring DiskpartError + ustring" where
  "buildAssignLetterCommand table letter =
     (let upperLetter = toUpperCase_cp table letter in
      if \<not> is_single_upper upperLetter then
        Inl (InvalidCommandError
               (widen ''Invalid drive letter: '' @ letter @ widen ''. Must be A-Z'') None)
      else Inr (widen ''assign letter='' @ upperLetter))"

definition buildRemoveLetterCommand ::
  "(nat \<Rightarrow> ustring) \<Rightarrow> ustring \<Rightarrow> ustring DiskpartError + ustring" where
  "buildRemoveLetterCommand table letter =
     (let upperLetter = toUpperCase_cp table letter in
      if \<not> is_single_upper upperLetter then
        Inl (InvalidCommandError
               (widen ''Invalid drive letter: '' @ letter @ widen ''. Must be A-Z'') None)
      else Inr (widen ''remove letter='' @ upperLetter))"

definition buildSetActiveCommand :: string where
  "buildSetActiveCommand = ''active''"

definition buildExtendPartitionCommand ::
  "(number \<Rightarrow> string) \<Rightarrow> number option \<Rightarrow> string DiskpartError + string" where
  "buildExtendPartitionCommand str size' =
     (case size' of
        Some sz \<Rightarrow>
          if \<not> isInteger sz \<or> le sz 0 then
            Inl (InvalidCommandError (''Invalid extend size: '' @ str sz) None)
          else Inr (''extend size='' @ str sz)
      | None \<Rightarrow> Inr ''extend'')"

definition buildShrinkPartitionCommand ::
  "(number \<Rightarrow> string) \<Rightarrow> number \<Rightarrow> number option \<Rightarrow> string DiskpartError + string" where
  "buildShrinkPartitionCommand str desired minimum =
     (if \<not> isInteger desired \<or> le desired 0 then
        Inl (InvalidCommandError (''Invalid shrink size: '' @ str desired) None)
      else
        (let command = ''shrink desired='' @ str desired in
         case minimum of
           Some m \<Rightarrow>
             if \<not> isInteger m \<or> le m 0 then
               Inl (InvalidCommandError (''Invalid minimum shrink size: '' @ str m) None)
             else Inr (command @ '' minimum='' @ str m)
         | None \<Rightarrow> Inr command))"

definition buildCommandScript :: "string list \<Rightarrow> string DiskpartError + string" where
  "buildCommandScript commands =
     (if commands = [] then Inl (InvalidCommandError ''No commands provided'' None)
      else Inr (join [CHR 0x0A] commands))"

section \<open>Regular expressions\<close>

text \<open>
  The two regular expressions of the parser are kept as data and run by a backtracking
  matcher that tries the alternatives in JavaScript's order: a greedy quantifier tries
  one more round before it tries to go on, a lazy one the other way round, and the
  first complete match wins. \<open>Group n\<close> is the \<open>n\<close>-th capturing group.
\<close>

datatype cclass = Space | NonSpace | Digit | OneOf string

datatype regex =
  Lit string
| Cls cclass
| Seq regex regex
| Star bool regex
| Opt regex
| Group nat regex

text \<open>\<open>r+\<close> is \<open>r\<close> followed by a greedy \<open>r*\<close>; \<open>seqs\<close> chains a list of pieces.\<close>

definition plus :: "regex \<Rightarrow> regex" where
  "plus r = Seq r (Star True r)"

fun seqs :: "regex list \<Rightarrow> regex" where
  "seqs [] = Lit []"
| "seqs [r] = r"
| "seqs (r # rs) = Seq r (seqs rs)"

text \<open>
  One character against a class or a literal character; \<open>ci\<close> is the flag \<open>i\<close>, under
  which both sides are compared in upper case.
\<close>

definition chr_eq :: "bool \<Rightarrow> char \<Rightarrow> char \<Rightarrow> bool" where
  "chr_eq ci a b = (if ci then to_upper a = to_upper b else a = b)"

fun cls_match :: "bool \<Rightarrow> cclass \<Rightarrow> char \<Rightarrow> bool" where
  "cls_match ci Space c = is_space c"
| "cls_match ci NonSpace c = (\<not> is_space c)"
| "cls_match ci Digit c = is_digit c"
| "cls_match ci (OneOf cs) c = list_ex (chr_eq ci c) cs"

fun lit_match :: "bool \<Rightarrow> string \<Rightarrow> string \<Rightarrow> string option" where
  "lit_match ci [] s = Some s"
| "lit_match ci (a # as) [] = None"
| "lit_match ci (a # as) (c # cs) = (if chr_eq ci a c then lit_match ci as cs else None)"

text \<open>
  The captures so far, latest first, and a continuation: what is still to be matched
  after the piece at hand, given the rest of the input. A failed alternative leaves no
  capture behind, since each alternative starts from the captures it was given.
  (JavaScript also clears the groups inside a quantified piece when a new round of it
  starts; in the two expressions below a piece with a group inside has one round at
  most, so there is nothing to clear.)
\<close>

type_synonym captures = "(nat \<times> string) list"

type_synonym cont = "string \<Rightarrow> captures \<Rightarrow> captures option"

text \<open>
  A quantified piece. A round that consumes nothing is rejected, as in JavaScript, so
  on an empty input no round is left to try.
\<close>

function star :: "bool \<Rightarrow> (cont \<Rightarrow> cont) \<Rightarrow> cont \<Rightarrow> cont" where
  "star greedy body k [] caps = k [] caps"
| "star greedy body k (c # cs) caps =
     (if greedy then
        (case body (\<lambda>s' caps'. if length s' < length (c # cs) then star greedy body k s' caps'
                                else None) (c # cs) caps of
           Some res \<Rightarrow> Some res
         | None \<Rightarrow> k (c # cs) caps)
      else
        (case k (c # cs) caps of
           Some res \<Rightarrow> Some res
         | None \<Rightarrow>
             body (\<lambda>s' caps'. if length s' < length (c # cs) then star greedy body k s' caps'
                              else None) (c # cs) caps))"
  by pat_completeness auto
termination
  by (relation "measure (\<lambda>(greedy, body, k, s, caps). length s)") auto

primrec rmatch :: "bool \<Rightarrow> regex \<Rightarrow> cont \<Rightarrow> cont" where
  "rmatch ci (Lit l) = (\<lambda>k s caps. case lit_match ci l s of None \<Rightarrow> None | Some s' \<Rightarrow> k s' caps)"
| "rmatch ci (Cls cl) =
     (\<lambda>k s caps. case s of [] \<Rightarrow> None | c # cs \<Rightarrow> if cls_match ci cl c then k cs caps else None)"
| "rmatch ci (Seq r1 r2) = (\<lambda>k. rmatch ci r1 (rmatch ci r2 k))"
| "rmatch ci (Star greedy r) = star greedy (rmatch ci r)"
| "rmatch ci (Opt r) =
     (\<lambda>k s caps.
        case rmatch ci r (\<lambda>s' caps'. if length s' < length s then k s' caps' else None) s caps of
          Some res \<Rightarrow> Some res
        | None \<Rightarrow> k s caps)"
| "rmatch ci (Group n r) =
     (\<lambda>k s caps. rmatch ci r (\<lambda>s' caps'. k s' ((n, take (length s - length s') s) # caps')) s caps)"

text \<open>
  \<open>s.match(re)\<close> for a regular expression without the flag \<open>g\<close>: the match at the first
  position that has one, \<open>None\<close> for \<open>null\<close>. \<open>group\<close> reads a capture, \<open>None\<close> for
  \<open>undefined\<close>.
\<close>

fun str_match :: "bool \<Rightarrow> regex \<Rightarrow> string \<Rightarrow> captures option" where
  "str_match ci r [] = rmatch ci r (\<lambda>s caps. Some caps) [] []"
| "str_match ci r (c # cs) =
     (case rmatch ci r (\<lambda>s caps. Some caps) (c # cs) [] of
        Some caps \<Rightarrow> Some caps
      | None \<Rightarrow> str_match ci r cs)"

definition group :: "captures \<Rightarrow> nat \<Rightarrow> string option" where
  "group caps n = map_of caps n"

section \<open>Output parser\<close>

text \<open>
  The records of the data model, with the optional fields as options. Sizes and
  identifiers are JavaScript numbers; the model computes them exactly, as JavaScript
  does below \<open>2^53\<close>. The body of each parser loop sits in a \<open>try\<close> whose \<open>catch\<close>
  logs and goes on to the next line.
\<close>

datatype disk_status = Online | Offline | NoMedia
datatype disk_type = Basic | Dynamic
datatype partition_style = MBR | GPT
datatype partition_type = Primary | Extended | Logical
datatype partition_status = PHealthy | PActive | PSystem | PBoot
datatype volume_type = VPartition | VRemovable | VCdRom
datatype volume_status = VHealthy | VFailed

record PartitionInfo =
  p_id :: number
  p_type :: partition_type
  p_size :: number
  p_offset :: number
  p_status :: partition_status
  p_fileSystem :: "string option"
  p_label :: "string option"
  p_driveLetter :: "string option"

record DiskInfo =
  d_id :: number
  d_status :: disk_status
  d_size :: number
  d_free :: number
  isSystemDisk :: bool
  isBootDisk :: bool
  diskType :: disk_type
  partitionStyle :: partition_style
  partitions :: "PartitionInfo list"

record VolumeInfo =
  v_letter :: "string option"
  v_label :: "string option"
  v_fileSystem :: string
  v_type :: volume_type
  v_size :: number
  v_status :: volume_status
  v_info :: string

text \<open>A value inside a string concatenation: \<open>undefined\<close> is rendered as the word.\<close>

definition str_of :: "string option \<Rightarrow> string" where
  "str_of x = (case x of None \<Rightarrow> ''undefined'' | Some s \<Rightarrow> s)"

definition digit_value :: "char \<Rightarrow> nat" where
  "digit_value c =
     (case map_of (zip ''0123456789'' [0, 1, 2, 3, 4, 5, 6, 7, 8, 9]) c of
        Some d \<Rightarrow> d | None \<Rightarrow> 0)"

definition digits_value :: "string \<Rightarrow> nat" where
  "digits_value ds = foldl (\<lambda>acc c. 10 * acc + digit_value c) 0 ds"

text \<open>
  \<open>parseInt(s, 10)\<close>: leading white space, an optional sign, then the longest run of
  digits; \<open>NaN\<close> when there is no digit.
\<close>

definition parseInt :: "string \<Rightarrow> number" where
  "parseInt s =
     (let t = dropWhile is_space s;
          negative = (case t of c # cs \<Rightarrow> c = CHR ''-'' | [] \<Rightarrow> False);
          u = (case t of c # cs \<Rightarrow> if c = CHR ''-'' \<or> c = CHR ''+'' then cs else t | [] \<Rightarrow> t);
          ds = takeWhile is_digit u
      in if ds = [] then NaN
         else if negative then Finite (- of_nat (digits_value ds))
         else Finite (of_nat (digits_value ds)))"

text \<open>\<open>/(\d+)\s*([KMGT]?B)/i\<close>\<close>

definition sizeRe :: regex where
  "sizeRe =
     seqs [Group 1 (plus (Cls Digit)), Star True (Cls Space),
           Group 2 (Seq (Opt (Cls (OneOf ''KMGT''))) (Lit ''B''))]"

definition multipliers :: "(string \<times> nat) list" where
  "multipliers =
     [(''B'', 1), (''KB'', 1024), (''MB'', 1024 * 1024), (''GB'', 1024 * 1024 * 1024),
      (''TB'', 1024 * 1024 * 1024 * 1024)]"

definition parseSize :: "string \<Rightarrow> number" where
  "parseSize sizeStr =
     (case str_match True sizeRe sizeStr of
        None \<Rightarrow> Finite 0
      | Some m \<Rightarrow>
          (case parseInt (str_of (group m 1)) of
             Finite v \<Rightarrow>
               Finite (v * of_nat (case map_of multipliers (toUpperCase (str_of (group m 2))) of
                                     Some k \<Rightarrow> k | None \<Rightarrow> 1))
           | other \<Rightarrow> other))"

definition normalizeStatus :: "string \<Rightarrow> disk_status" where
  "normalizeStatus status =
     (let normalized = toLowerCase (trim status) in
      if str_includes normalized ''online'' then Online
      else if str_includes normalized ''offline'' then Offline
      else if str_includes normalized ''no media'' then NoMedia
      else Offline)"

definition normalizeVolumeType :: "string \<Rightarrow> volume_type" where
  "normalizeVolumeType type =
     (let normalized = toLowerCase (trim type) in
      if str_includes normalized ''removable'' then VRemovable
      else if str_includes normalized ''cd'' \<or> str_includes normalized ''dvd'' then VCdRom
      else VPartition)"

definition normalizePartitionType :: "string \<Rightarrow> partition_type" where
  "normalizePartitionType type =
     (let normalized = toLowerCase (trim type) in
      if str_includes normalized ''extended'' then Extended
      else if str_includes normalized ''logical'' then Logical
      else Primary)"

text \<open>
  \<open>/Disk\s+(\d+)\s+(\S+(?:\s+\S+)*?)\s+(\d+\s+[KMGT]?B)\s+(\d+\s+[KMGT]?B)(?:\s+(\*))?\s*(?:\s+(\*))?/\<close>
\<close>

definition sizeToken :: regex where
  "sizeToken =
     seqs [plus (Cls Digit), plus (Cls Space), Opt (Cls (OneOf ''KMGT'')), Lit ''B'']"

definition diskRe :: regex where
  "diskRe =
     seqs [Lit ''Disk'', plus (Cls Space), Group 1 (plus (Cls Digit)), plus (Cls Space),
           Group 2 (Seq (plus (Cls NonSpace))
                        (Star False (Seq (plus (Cls Space)) (plus (Cls NonSpace))))),
           plus (Cls Space), Group 3 sizeToken, plus (Cls Space), Group 4 sizeToken,
           Opt (Seq (plus (Cls Space)) (Group 5 (Lit ''*''))),
           Star True (Cls Space),
           Opt (Seq (plus (Cls Space)) (Group 6 (Lit ''*'')))]"

text \<open>
  The body of the loop over the data lines of \<open>parseListDisk\<close>: \<open>None\<close> where the source
  goes on to the next line, the record it pushes otherwise. Reading a group that did
  not take part in the match would throw inside the \<open>try\<close>, and the line would be skipped.
\<close>

definition diskRow :: "string \<Rightarrow> DiskInfo option" where
  "diskRow line =
     (if line = [] \<or> \<not> startsWith line ''Disk '' then None
      else
        (case str_match False diskRe line of
           None \<Rightarrow> None
         | Some m \<Rightarrow>
             (case (group m 1, group m 2, group m 3, group m 4) of
                (Some diskNum, Some status, Some sizeStr, Some freeStr) \<Rightarrow>
                  Some \<lparr>d_id = parseInt diskNum,
                        d_status = normalizeStatus status,
                        d_size = parseSize sizeStr,
                        d_free = parseSize freeStr,
                        isSystemDisk = False,
                        isBootDisk = False,
                        diskType = (if group m 5 = Some ''*'' then Dynamic else Basic),
                        partitionStyle = (if group m 6 = Some ''*'' then GPT else MBR),
                        partitions = []\<rparr>
              | _ \<Rightarrow> None)))"

text \<open>
  The three list parsers share their frame: split at line feeds and trim, find the
  header line by its marker, drop it and the separator line, run the body on each line
  that follows.
\<close>

definition dataLines :: "string \<Rightarrow> string \<Rightarrow> string list option" where
  "dataLines marker out =
     (let lines = map trim (split_on CHR 0x0A out) in
      case findIndex (\<lambda>line. str_includes line marker) lines of
        None \<Rightarrow> None
      | Some headerIndex \<Rightarrow> Some (drop (headerIndex + 2) lines))"

definition parseListDisk :: "string \<Rightarrow> string DiskpartError + DiskInfo list" where
  "parseListDisk out =
     (case dataLines ''Disk ###'' out of
        None \<Rightarrow> Inl (ParseError ''Could not find disk list header in output'' None)
      | Some ls \<Rightarrow> Inr (List.map_filter diskRow ls))"

definition knownFileSystems :: "string list" where
  "knownFileSystems = [''NTFS'', ''FAT32'', ''FAT'', ''exFAT'', ''RAW'']"

definition volumeRow :: "string \<Rightarrow> VolumeInfo option" where
  "volumeRow line =
     (if line = [] \<or> \<not> startsWith line ''Volume '' then None
      else
        (let parts = split_ws line in
         if length parts < 7 then None
         else
           (let letter = (case nth_opt parts 2 of
                            Some p \<Rightarrow> if p \<noteq> [] \<and> length p = 1 then Some p else None
                          | None \<Rightarrow> None);
                fsIndex = (case findIndex (\<lambda>p. toUpperCase p \<in> set knownFileSystems) parts of
                             None \<Rightarrow> 4 | Some i \<Rightarrow> i);
                label = (if fsIndex > 3 then Some (join '' '' (slice parts 3 fsIndex)) else None);
                fileSystem = or_else (nth_opt parts fsIndex) ''Unknown'';
                type = or_else (nth_opt parts (fsIndex + 1)) ''Partition'';
                sizeStr = str_of (nth_opt parts (fsIndex + 2)) @ '' ''
                          @ str_of (nth_opt parts (fsIndex + 3));
                status = or_else (nth_opt parts (fsIndex + 4)) ''Unknown'';
                info = join '' '' (drop (fsIndex + 5) parts)
            in Some \<lparr>v_letter = letter,
                     v_label = (case label of Some l \<Rightarrow> if l \<noteq> [] then Some l else None
                                | None \<Rightarrow> None),
                     v_fileSystem = fileSystem,
                     v_type = normalizeVolumeType type,
                     v_size = parseSize sizeStr,
                     v_status = (if status = ''Healthy'' then VHealthy else VFailed),
                     v_info = info\<rparr>)))"

definition parseListVolume :: "string \<Rightarrow> string DiskpartError + VolumeInfo list" where
  "parseListVolume out =
     (case dataLines ''Volume ###'' out of
        None \<Rightarrow> Inl (ParseError ''Could not find volume list header in output'' None)
      | Some ls \<Rightarrow> Inr (List.map_filter volumeRow ls))"

definition partitionRow :: "string \<Rightarrow> PartitionInfo option" where
  "partitionRow line =
     (if line = [] \<or> \<not> startsWith line ''Partition '' then None
      else
        (let parts = split_ws line in
         if length parts < 5 then None
         else
           (let partNum = parseInt (str_of (nth_opt parts 1));
                type = str_of (nth_opt parts 2);
                sizeStr = str_of (nth_opt parts 3) @ '' '' @ str_of (nth_opt parts 4);
                offsetStr = str_of (nth_opt parts 5) @ '' '' @ str_of (nth_opt parts 6)
            in Some \<lparr>p_id = partNum,
                     p_type = normalizePartitionType type,
                     p_size = parseSize sizeStr,
                     p_offset = parseSize offsetStr,
                     p_status = PHealthy,
                     p_fileSystem = None, p_label = None, p_driveLetter = None\<rparr>)))"

definition parseListPartition :: "string \<Rightarrow> string DiskpartError + PartitionInfo list" where
  "parseListPartition out =
     (case dataLines ''Partition ###'' out of
        None \<Rightarrow> Inl (ParseError ''Could not find partition list header in output'' None)
      | Some ls \<Rightarrow> Inr (List.map_filter partitionRow ls))"

section \<open>Claims: vocabulary\<close>

text \<open>
  The markers of the output classification as the specification lists them: the two
  phrases that announce success, and the six negative markers. Both are looked for in
  the lower-cased text.
\<close>

definition positive_phrase :: "string \<Rightarrow> bool" where
  "positive_phrase out =
     (\<exists>m \<in> set [''diskpart successfully'', ''completed successfully''].
        str_includes (toLowerCase out) m)"

definition negative_marker :: "string \<Rightarrow> bool" where
  "negative_marker out =
     (\<exists>m \<in> set [''error'', ''failed'', ''access is denied'', ''cannot'', ''invalid'', ''not found''].
        str_includes (toLowerCase out) m)"


text \<open>Events that spawn a subprocess or write the temporary script, and calls of a parser.\<close>

fun is_spawn_or_write :: "event \<Rightarrow> bool" where
  "is_spawn_or_write (Exec c t) = True"
| "is_spawn_or_write (WriteFile p c) = True"
| "is_spawn_or_write ev = False"

fun is_parser_call :: "event \<Rightarrow> bool" where
  "is_parser_call (ParserCall s) = True"
| "is_parser_call ev = False"

text \<open>
  The subprocess ran to its end and the classifier rejected its output: the one failure
  of the executor that is reported under a code of its own.
\<close>

definition classified_as_failure :: "env \<Rightarrow> bool" where
  "classified_as_failure e =
     (isRunningAsAdmin e \<and> writeFails e = None \<and>
      (case execOutcome e of
         Exited out err \<Rightarrow> \<not> isCommandSuccessful (or_else (Some out) (or_else (Some err) []))
       | Rejected x \<Rightarrow> False))"

text \<open>Sample runs: a rejected output, a missing elevation, an output no parser accepts.\<close>

definition failing_env :: env where
  "failing_env =
     \<lparr>isRunningAsAdmin = True, scriptPath = ''diskpart_1700000000000_k3x9.txt'',
      writeFails = None,
      execOutcome = Exited ''Virtual Disk Service error: The disk is not empty.'' ''''\<rparr>"

definition unelevated_env :: env where
  "unelevated_env =
     \<lparr>isRunningAsAdmin = False, scriptPath = ''diskpart_1700000000000_k3x9.txt'',
      writeFails = None,
      execOutcome = Exited ''DiskPart successfully cleaned the disk.'' ''''\<rparr>"

definition garbage_env :: env where
  "garbage_env =
     \<lparr>isRunningAsAdmin = True, scriptPath = ''diskpart_1700000000000_k3x9.txt'',
      writeFails = None,
      execOutcome = Exited ''Microsoft DiskPart version 10.0'' ''''\<rparr>"

definition raising_parser :: "string \<Rightarrow> exn + unit" where
  "raising_parser s = Inl (ErrorObject ''Could not find disk list header in output'')"


text \<open>
  A builder raised \<open>InvalidCommandError\<close> and gave no script; a string of code points
  that is one ASCII letter of either case; a string of ASCII characters.
\<close>

definition raises_invalid :: "'s DiskpartError + 't \<Rightarrow> bool" where
  "raises_invalid r = (case r of Inl err \<Rightarrow> err_code err = ''INVALID_COMMAND'' | Inr script \<Rightarrow> False)"

definition single_letter :: "ustring \<Rightarrow> bool" where
  "single_letter s =
     (case s of [c] \<Rightarrow> 65 \<le> c \<and> c \<le> 90 \<or> 97 \<le> c \<and> c \<le> 122 | _ \<Rightarrow> False)"

definition ascii :: "ustring \<Rightarrow> bool" where
  "ascii s = list_all (\<lambda>c. c < 128) s"

text \<open>
  Sample outputs of the tool. The first and the third are the tables of the parser's own
  documentation, cut after the first row that matters here; in the disk table the lone
  star stands under \<open>Gpt\<close>. The others hold one row of the table and one line that is
  not a row; the last but one holds a partition row cut after its size, and the last a
  partition row and a line of plain words that starts with the keyword.
\<close>

definition disk_list_docstring :: string where
  "disk_list_docstring =
     ''  Disk ###  Status         Size     Free     Dyn  Gpt'' @ [CHR 0x0A] @
     ''  --------  -------------  -------  -------  ---  ---'' @ [CHR 0x0A] @
     ''  Disk 0    Online          238 GB      0 B        *''"

definition disk_list_garbage :: string where
  "disk_list_garbage =
     ''  Disk ###  Status         Size     Free     Dyn  Gpt'' @ [CHR 0x0A] @
     ''  --------  -------------  -------  -------  ---  ---'' @ [CHR 0x0A] @
     ''  Disk one  is not a row of the table'' @ [CHR 0x0A] @
     ''  Disk 1    Online          931 GB   931 GB''"

definition volume_list_docstring :: string where
  "volume_list_docstring =
     ''  Volume ###  Ltr  Label        Fs     Type        Size     Status     Info'' @ [CHR 0x0A] @
     ''  ----------  ---  -----------  -----  ----------  -------  ---------  --------'' @ [CHR 0x0A] @
     ''  Volume 2         Recovery     NTFS   Partition    499 MB  Healthy    Hidden''"

definition volume_list_garbage :: string where
  "volume_list_garbage =
     ''  Volume ###  Ltr  Label        Fs     Type        Size     Status     Info'' @ [CHR 0x0A] @
     ''  ----------  ---  -----------  -----  ----------  -------  ---------  --------'' @ [CHR 0x0A] @
     ''  Volume 0     D   Data         NTFS   Partition    100 GB  Healthy'' @ [CHR 0x0A] @
     ''  Volume is not a row''"

definition partition_list_garbage :: string where
  "partition_list_garbage =
     ''  Partition ###  Type              Size     Offset'' @ [CHR 0x0A] @
     ''  -------------  ----------------  -------  -------'' @ [CHR 0x0A] @
     ''  no partitions to show here'' @ [CHR 0x0A] @
     ''  Partition 1    Primary            100 MB  1024 KB''"


definition partition_list_junk :: string where
  "partition_list_junk =
     ''  Partition ###  Type              Size     Offset'' @ [CHR 0x0A] @
     ''  -------------  ----------------  -------  -------'' @ [CHR 0x0A] @
     ''  Partition 1    Primary            100 MB  1024 KB'' @ [CHR 0x0A] @
     ''  Partition is not a row here''"

text \<open>
  The test a data line has to pass to give a record, for each parser as its loop has
  it: the keyword at the start of the line and, for disks, a match of the row pattern
  somewhere in the line, for volumes at least 7 tokens, for partitions at least 5.
\<close>

definition disk_row_shape :: "string \<Rightarrow> bool" where
  "disk_row_shape line = (startsWith line ''Disk '' \<and> str_match False diskRe line \<noteq> None)"

definition volume_row_shape :: "string \<Rightarrow> bool" where
  "volume_row_shape line = (startsWith line ''Volume '' \<and> 7 \<le> length (split_ws line))"

definition partition_row_shape :: "string \<Rightarrow> bool" where
  "partition_row_shape line = (startsWith line ''Partition '' \<and> 5 \<le> length (split_ws line))"

text \<open>The groups that take part in every match of an expression.\<close>

fun binds :: "regex \<Rightarrow> nat list" where
  "binds (Group n r) = n # binds r"
| "binds (Seq r1 r2) = binds r1 @ binds r2"
| "binds r = []"








section \<open>Output classification\<close>

lemma str_includes_set: "str_includes hay n \<Longrightarrow> set n \<subseteq> set hay"
proof (induction hay)
  case Nil
  then show ?case by simp
next
  case (Cons a hay)
  from Cons.prems have "prefix n (a # hay) \<or> str_includes hay n" by simp
  then show ?case
  proof
    assume "prefix n (a # hay)"
    then show ?thesis by (rule set_mono_prefix)
  next
    assume "str_includes hay n"
    then show ?thesis using Cons.IH by auto
  qed
qed

lemma trim_empty_iff: "trim s = [] \<longleftrightarrow> (\<forall>c \<in> set s. is_space c)"
proof
  assume "trim s = []"
  then have a: "\<forall>c \<in> set (dropWhile is_space s). is_space c"
    by (simp add: trim_def dropWhile_eq_Nil_conv)
  have "dropWhile is_space s = []"
  proof (rule ccontr)
    assume n: "dropWhile is_space s \<noteq> []"
    then have "\<not> is_space (hd (dropWhile is_space s))" by (rule hd_dropWhile)
    moreover have "hd (dropWhile is_space s) \<in> set (dropWhile is_space s)" using n by simp
    ultimately show False using a by blast
  qed
  then show "\<forall>c \<in> set s. is_space c" by (simp add: dropWhile_eq_Nil_conv)
next
  assume "\<forall>c \<in> set s. is_space c"
  then have d: "dropWhile is_space s = []" by (simp add: dropWhile_eq_Nil_conv)
  show "trim s = []" by (simp only: trim_def d dropWhile.simps rev.simps)
qed

lemma to_lower_hash: "to_lower c = CHR ''#'' \<Longrightarrow> \<not> is_space c"
  by (simp add: to_lower_def upper_letters_def lower_letters_def is_space_def split: if_splits)

lemma header_not_blank:
  assumes "str_includes (toLowerCase out) m" and "CHR ''#'' \<in> set m"
  shows "trim out \<noteq> []"
proof -
  have "CHR ''#'' \<in> set (toLowerCase out)" using assms str_includes_set by blast
  then obtain c where "c \<in> set out" "to_lower c = CHR ''#''"
    by (auto simp: toLowerCase_def)
  then show ?thesis using to_lower_hash trim_empty_iff by blast
qed

text \<open>
  Claim C1, as the code has it. The two success phrases are tested first and win over
  every negative marker: the classifier returns success whenever the lower-cased text
  contains "diskpart successfully" or "completed successfully". Without such a phrase it
  returns failure whenever one of the six negative markers occurs in the lower-cased
  text, and failure for a text that is empty or white space only; in every other case
  it returns success (a table header is never blank, so it needs no case of its own).
\<close>

theorem isCommandSuccessful_classifies:
  "isCommandSuccessful out \<longleftrightarrow>
     (positive_phrase out \<or> (\<not> negative_marker out \<and> trim out \<noteq> []))"
proof -
  have h: "trim out \<noteq> []"
    if "str_includes (toLowerCase out) ''disk ###'' \<or> str_includes (toLowerCase out) ''volume ###''
        \<or> str_includes (toLowerCase out) ''partition ###''"
  proof -
    from that obtain m where "str_includes (toLowerCase out) m" "CHR ''#'' \<in> set m"
      by fastforce
    then show ?thesis by (rule header_not_blank)
  qed
  show ?thesis
    using h by (auto simp: isCommandSuccessful_def positive_phrase_def negative_marker_def Let_def)
qed

text \<open>
  A text with the negative marker "error" and the phrase "completed successfully" is
  classified as success.
\<close>

theorem isCommandSuccessful_counterexample:
  "negative_marker ''DiskPart completed successfully. No error.''
   \<and> isCommandSuccessful ''DiskPart completed successfully. No error.''"
  by (simp add: negative_marker_def isCommandSuccessful_def toLowerCase_def to_lower_def
      upper_letters_def lower_letters_def)


section \<open>Executor: the branches of one call\<close>

lemma exec_unelevated:
  "\<not> isRunningAsAdmin e \<Longrightarrow>
   executeDiskpartCommand e command timeout =
     (\<lparr>success = False,
       message = ''Administrator privileges required to execute Diskpart commands'',
       errorCode = Some ''PRIVILEGE_ERROR'',
       details = Some ''Please restart the application as administrator'', data = None\<rparr>,
      [LogError ''Privilege check failed''])"
  by (simp add: executeDiskpartCommand_def PrivilegeError_def)

lemma exec_write_fails:
  "isRunningAsAdmin e \<Longrightarrow> writeFails e = Some m \<Longrightarrow>
   (executeDiskpartCommand e command timeout :: 'a CommandResult \<times> event list) =
     (fst (handleThrown command timeout
             (Thrown False None (Some ''Failed to create temporary script file''))),
      [LogCommand command, WriteFile (scriptPath e) command]
      @ snd (handleThrown command timeout
             (Thrown False None (Some ''Failed to create temporary script file'')) :: 'a CommandResult \<times> event list))"
  by (simp add: executeDiskpartCommand_def createTempScript_def CommandExecutionError_def
      split_beta)

lemma exec_rejected:
  "isRunningAsAdmin e \<Longrightarrow> writeFails e = None \<Longrightarrow> execOutcome e = Rejected x \<Longrightarrow>
   (executeDiskpartCommand e command timeout :: 'a CommandResult \<times> event list) =
     (fst (handleThrown command timeout x),
      [LogCommand command, WriteFile (scriptPath e) command,
       Exec (''diskpart /s '' @ [CHR 0x22] @ scriptPath e @ [CHR 0x22]) timeout,
       DeleteTempScript (scriptPath e)]
      @ snd (handleThrown command timeout x :: 'a CommandResult \<times> event list))"
  by (simp add: executeDiskpartCommand_def createTempScript_def split_beta)

lemma exec_exited:
  "isRunningAsAdmin e \<Longrightarrow> writeFails e = None \<Longrightarrow> execOutcome e = Exited out err \<Longrightarrow>
   executeDiskpartCommand e command timeout =
     (if isCommandSuccessful (or_else (Some out) (or_else (Some err) [])) then
        \<lparr>success = True, message = ''Command executed successfully'', errorCode = None,
         details = None,
         data = Some (Streams (Some (or_else (Some out) (or_else (Some err) []))) out err)\<rparr>
      else
        \<lparr>success = False,
         message = or_else (extractErrorFromOutput (or_else (Some out) (or_else (Some err) [])))
                     ''Command failed'',
         errorCode = Some ''COMMAND_FAILED'',
         details = Some (or_else (Some out) (or_else (Some err) [])),
         data = Some (Streams None out err)\<rparr>,
      [LogCommand command, WriteFile (scriptPath e) command,
       Exec (''diskpart /s '' @ [CHR 0x22] @ scriptPath e @ [CHR 0x22]) timeout,
       DeleteTempScript (scriptPath e),
       LogCommandResult command (isCommandSuccessful (or_else (Some out) (or_else (Some err) [])))])"
  by (simp add: executeDiskpartCommand_def createTempScript_def Let_def)

lemma handleThrown_result:
  "\<not> success (fst (handleThrown command timeout x))
   \<and> errorCode (fst (handleThrown command timeout x))
       \<in> Some ` set [''COMMAND_EXECUTION_ERROR'', ''COMMAND_TIMEOUT'', ''ACCESS_DENIED'']"
  by (simp add: handleThrown_def CommandTimeoutError_def AccessDeniedError_def
      CommandExecutionError_def)

lemma handleThrown_trace:
  "filter is_parser_call (snd (handleThrown command timeout x)) = []
   \<and> filter is_spawn_or_write (snd (handleThrown command timeout x)) = []"
  by (simp add: handleThrown_def)

lemma env_cases:
  obtains "\<not> isRunningAsAdmin e"
  | m where "isRunningAsAdmin e" "writeFails e = Some m"
  | x where "isRunningAsAdmin e" "writeFails e = None" "execOutcome e = Rejected x"
  | out err where "isRunningAsAdmin e" "writeFails e = None" "execOutcome e = Exited out err"
  by (cases "isRunningAsAdmin e"; cases "writeFails e"; cases "execOutcome e") auto

lemma isCommandSuccessful_Nil: "\<not> isCommandSuccessful []"
  by (simp add: isCommandSuccessful_def toLowerCase_def trim_def)

lemma executeDiskpartCommand_no_parser:
  "filter is_parser_call
     (snd (executeDiskpartCommand e command timeout :: 'a CommandResult \<times> event list)) = []"
proof (cases e rule: env_cases)
  case 1
  then show ?thesis by (simp add: exec_unelevated)
next
  case (2 m)
  then show ?thesis by (simp add: exec_write_fails handleThrown_trace)
next
  case (3 x)
  then show ?thesis by (simp add: exec_rejected handleThrown_trace)
next
  case (4 out err)
  then show ?thesis by (simp add: exec_exited)
qed

lemma executeDiskpartCommand_success_data:
  fixes r :: "'a CommandResult"
  assumes "executeDiskpartCommand e command timeout = (r, evs)" and "success r"
  shows "\<exists>so se. execOutcome e = Exited so se
           \<and> data r = Some (Streams (Some (or_else (Some so) (or_else (Some se) []))) so se)
           \<and> or_else (Some so) (or_else (Some se) []) \<noteq> []"
proof (cases e rule: env_cases)
  case 1
  then show ?thesis using assms by (auto simp: exec_unelevated)
next
  case (2 m)
  then have "r = fst (handleThrown command timeout
             (Thrown False None (Some ''Failed to create temporary script file'')))"
    using assms(1) by (simp add: exec_write_fails)
  then show ?thesis using assms(2) handleThrown_result [of command timeout] by auto
next
  case (3 x)
  then have "r = fst (handleThrown command timeout x)"
    using assms(1) by (simp add: exec_rejected)
  then show ?thesis using assms(2) handleThrown_result [of command timeout x] by auto
next
  case (4 out err)
  show ?thesis
  proof (cases "isCommandSuccessful (or_else (Some out) (or_else (Some err) []))")
    case True
    then have "or_else (Some out) (or_else (Some err) []) \<noteq> []"
      using isCommandSuccessful_Nil by auto
    then show ?thesis using assms 4 True by (auto simp: exec_exited)
  next
    case False
    then show ?thesis using assms 4 by (auto simp: exec_exited)
  qed
qed

lemma failing_env_failure:
  "\<not> isCommandSuccessful ''Virtual Disk Service error: The disk is not empty.''"
  by (simp add: isCommandSuccessful_def toLowerCase_def to_lower_def upper_letters_def
      lower_letters_def Let_def)

lemma garbage_env_success: "isCommandSuccessful ''Microsoft DiskPart version 10.0''"
  by (simp add: isCommandSuccessful_def toLowerCase_def to_lower_def upper_letters_def
      lower_letters_def Let_def trim_def is_space_def)

lemma garbage_env_run:
  "fst (executeDiskpartCommand garbage_env ''list disk'' DEFAULT_TIMEOUT) =
     \<lparr>success = True, message = ''Command executed successfully'', errorCode = None,
      details = None,
      data = Some (Streams (Some ''Microsoft DiskPart version 10.0'')
                     ''Microsoft DiskPart version 10.0'' '''')\<rparr>"
  using garbage_env_success
  by (simp add: exec_exited [where out = "''Microsoft DiskPart version 10.0''" and err = "''''"]
      garbage_env_def or_else_def)


lemma failing_env_run:
  "\<not> success (fst (executeDiskpartCommand failing_env command timeout))"
  using failing_env_failure
  by (simp add: exec_exited [where out = "''Virtual Disk Service error: The disk is not empty.''"
        and err = "[]"] failing_env_def or_else_def)

text \<open>
  Claim C7. When the elevation probe answers no, the result is a failure with code
  \<open>PRIVILEGE_ERROR\<close>, and the only effect of the call is one log entry: no subprocess is
  spawned and no script is written.
\<close>

theorem executeDiskpartCommand_not_elevated:
  fixes r :: "'a CommandResult"
  assumes "\<not> isRunningAsAdmin e" and "executeDiskpartCommand e command timeout = (r, evs)"
  shows "success r = False \<and> errorCode r = Some ''PRIVILEGE_ERROR''
         \<and> evs = [LogError ''Privilege check failed''] \<and> filter is_spawn_or_write evs = []"
  using assms by (auto simp: exec_unelevated)

theorem executeDiskpartCommand_not_elevated_witness:
  "\<not> isRunningAsAdmin unelevated_env
   \<and> errorCode (fst (executeDiskpartCommand unelevated_env ''clean'' 60000 :: unit CommandResult \<times> event list))
        = Some ''PRIVILEGE_ERROR''
   \<and> filter is_spawn_or_write (snd (executeDiskpartCommand unelevated_env ''clean'' 60000 :: unit CommandResult \<times> event list)) = []"
  using executeDiskpartCommand_not_elevated
    [where e = unelevated_env and command = "''clean''" and timeout = 60000
       and r = "fst (executeDiskpartCommand unelevated_env ''clean'' 60000 :: unit CommandResult \<times> event list)"
       and evs = "snd (executeDiskpartCommand unelevated_env ''clean'' 60000 :: unit CommandResult \<times> event list)"]
  by (simp add: unelevated_env_def)

text \<open>
  Claim C3, as the code has it. Every call returns a result (the model has a branch for
  every throw of the source, and each ends in a result). A failing result carries the
  code \<open>COMMAND_FAILED\<close>, which no error class declares, exactly when the subprocess
  ran to its end and the classifier rejected its output; every other failure carries
  one of \<open>PRIVILEGE_ERROR\<close>, \<open>COMMAND_EXECUTION_ERROR\<close>, \<open>COMMAND_TIMEOUT\<close> and
  \<open>ACCESS_DENIED\<close>.
\<close>

theorem executeDiskpartCommand_failure_codes:
  fixes r :: "'a CommandResult"
  assumes "executeDiskpartCommand e command timeout = (r, evs)" and "\<not> success r"
  shows "(classified_as_failure e \<and> errorCode r = Some ''COMMAND_FAILED'')
         \<or> (\<not> classified_as_failure e \<and>
             errorCode r \<in> Some ` set [''PRIVILEGE_ERROR'', ''COMMAND_EXECUTION_ERROR'',
                                       ''COMMAND_TIMEOUT'', ''ACCESS_DENIED''])"
proof (cases e rule: env_cases)
  case 1
  then show ?thesis
    using assms by (auto simp: exec_unelevated classified_as_failure_def)
next
  case (2 m)
  then have "r = fst (handleThrown command timeout
             (Thrown False None (Some ''Failed to create temporary script file'')))"
    using assms(1) by (simp add: exec_write_fails)
  then show ?thesis
    using 2 handleThrown_result [of command timeout] by (auto simp: classified_as_failure_def)
next
  case (3 x)
  then have "r = fst (handleThrown command timeout x)"
    using assms(1) by (simp add: exec_rejected)
  then show ?thesis
    using 3 handleThrown_result [of command timeout x] by (auto simp: classified_as_failure_def)
next
  case (4 out err)
  show ?thesis
  proof (cases "isCommandSuccessful (or_else (Some out) (or_else (Some err) []))")
    case True
    then show ?thesis using assms 4 by (auto simp: exec_exited)
  next
    case False
    then show ?thesis using assms 4 by (auto simp: exec_exited classified_as_failure_def)
  qed
qed

theorem executeDiskpartCommand_failure_codes_witness:
  "\<not> success (fst (executeDiskpartCommand failing_env ''select disk 1'' 30000 :: unit CommandResult \<times> event list))
   \<and> classified_as_failure failing_env
   \<and> errorCode (fst (executeDiskpartCommand failing_env ''select disk 1'' 30000 :: unit CommandResult \<times> event list))
       = Some ''COMMAND_FAILED''"
  using failing_env_failure executeDiskpartCommand_failure_codes
    [where e = failing_env and command = "''select disk 1''" and timeout = 30000
       and r = "fst (executeDiskpartCommand failing_env ''select disk 1'' 30000 :: unit CommandResult \<times> event list)"
       and evs = "snd (executeDiskpartCommand failing_env ''select disk 1'' 30000 :: unit CommandResult \<times> event list)"]
  by (simp add: exec_exited [where out = "''Virtual Disk Service error: The disk is not empty.''"
        and err = "''''"] failing_env_def or_else_def classified_as_failure_def)

text \<open>A rejected output is reported under \<open>COMMAND_FAILED\<close>, outside the eight codes.\<close>

theorem executeDiskpartCommand_failure_codes_counterexample:
  "\<not> success (fst (executeDiskpartCommand failing_env ''select disk 1'' 30000 :: unit CommandResult \<times> event list))
   \<and> errorCode (fst (executeDiskpartCommand failing_env ''select disk 1'' 30000 :: unit CommandResult \<times> event list))
       = Some ''COMMAND_FAILED''
   \<and> ''COMMAND_FAILED'' \<notin> set taxonomy"
  using failing_env_failure
  by (simp add: exec_exited [where out = "''Virtual Disk Service error: The disk is not empty.''"
        and err = "''''"] failing_env_def or_else_def taxonomy_def)

text \<open>
  Claim C5, as the code has it. A failing result of the executor is returned as it is,
  with the executor's effects and no call of the parser. When the executor succeeds and
  the parser throws, the result is a failure with code \<open>PARSE_ERROR\<close> whose \<open>details\<close>
  hold the text of what the parser threw; the raw captured output is kept in \<open>data\<close>,
  which is the executor's \<open>data\<close> unchanged.
\<close>

theorem executeAndParse_envelope:
  fixes r :: "'a CommandResult" and parser :: "string \<Rightarrow> exn + 'a"
  assumes "executeDiskpartCommand e command (case timeout of None \<Rightarrow> DEFAULT_TIMEOUT | Some t \<Rightarrow> t)
             = (r, evs)"
  shows "(\<not> success r \<longrightarrow>
            executeAndParse e command parser timeout = (r, evs)
            \<and> filter is_parser_call (snd (executeAndParse e command parser timeout)) = [])
       \<and> (\<forall>outp so se x.
            success r \<and> data r = Some (Streams (Some outp) so se) \<and> parser outp = Inl x \<longrightarrow>
              fst (executeAndParse e command parser timeout) =
                \<lparr>success = False, message = ''Failed to parse command output'',
                 errorCode = Some ''PARSE_ERROR'', details = Some (exn_text x),
                 data = Some (Streams (Some outp) so se)\<rparr>)"
proof (intro conjI impI allI)
  assume f: "\<not> success r"
  then show "executeAndParse e command parser timeout = (r, evs)"
    using assms by (simp add: executeAndParse_def)
  then show "filter is_parser_call (snd (executeAndParse e command parser timeout)) = []"
    using executeDiskpartCommand_no_parser [where ?'a = 'a, of e command "case timeout of None \<Rightarrow> DEFAULT_TIMEOUT | Some t \<Rightarrow> t"] assms
    by simp
next
  fix outp so se x
  assume a: "success r \<and> data r = Some (Streams (Some outp) so se) \<and> parser outp = Inl x"
  then have "outp \<noteq> []"
    using executeDiskpartCommand_success_data [OF assms] by auto
  then show "fst (executeAndParse e command parser timeout) =
                \<lparr>success = False, message = ''Failed to parse command output'',
                 errorCode = Some ''PARSE_ERROR'', details = Some (exn_text x),
                 data = Some (Streams (Some outp) so se)\<rparr>"
    using assms a by (simp add: executeAndParse_def data_output_def or_else_def)
qed

theorem executeAndParse_envelope_witness:
  "\<not> success (fst (executeDiskpartCommand failing_env ''list disk'' DEFAULT_TIMEOUT
                     :: unit CommandResult \<times> event list))
   \<and> executeAndParse failing_env ''list disk'' raising_parser None
       = executeDiskpartCommand failing_env ''list disk'' DEFAULT_TIMEOUT
   \<and> success (fst (executeDiskpartCommand garbage_env ''list disk'' DEFAULT_TIMEOUT
                    :: unit CommandResult \<times> event list))
   \<and> fst (executeAndParse garbage_env ''list disk'' raising_parser None) =
         \<lparr>success = False, message = ''Failed to parse command output'',
          errorCode = Some ''PARSE_ERROR'',
          details = Some ''Could not find disk list header in output'',
          data = Some (Streams (Some ''Microsoft DiskPart version 10.0'')
                         ''Microsoft DiskPart version 10.0'' [])\<rparr>"
proof -
  let ?f = "executeDiskpartCommand failing_env ''list disk'' DEFAULT_TIMEOUT
              :: unit CommandResult \<times> event list"
  let ?g = "executeDiskpartCommand garbage_env ''list disk'' DEFAULT_TIMEOUT
              :: unit CommandResult \<times> event list"
  have nf: "\<not> success (fst ?f)" by (rule failing_env_run)
  have "executeDiskpartCommand failing_env ''list disk''
          (case None of None \<Rightarrow> DEFAULT_TIMEOUT | Some t \<Rightarrow> t) = (fst ?f, snd ?f)"
    by simp
  from executeAndParse_envelope [OF this, of raising_parser] nf
  have a: "executeAndParse failing_env ''list disk'' raising_parser None = ?f"
    by simp
  have sg: "success (fst ?g)" by (simp add: garbage_env_run)
  have "executeDiskpartCommand garbage_env ''list disk''
          (case None of None \<Rightarrow> DEFAULT_TIMEOUT | Some t \<Rightarrow> t) = (fst ?g, snd ?g)"
    by simp
  from executeAndParse_envelope [OF this, of raising_parser]
  have "fst (executeAndParse garbage_env ''list disk'' raising_parser None) =
         \<lparr>success = False, message = ''Failed to parse command output'',
          errorCode = Some ''PARSE_ERROR'',
          details = Some (exn_text (ErrorObject ''Could not find disk list header in output'')),
          data = Some (Streams (Some ''Microsoft DiskPart version 10.0'')
                         ''Microsoft DiskPart version 10.0'' [])\<rparr>"
    by (simp add: garbage_env_run raising_parser_def)
  then show ?thesis using nf a sg by (simp add: exn_text_def)
qed

text \<open>
  The parser throws on an output the executor accepted: \<open>details\<close> hold the parser's
  message, not the raw output.
\<close>

theorem executeAndParse_envelope_counterexample:
  "success (fst (executeDiskpartCommand garbage_env ''list disk'' DEFAULT_TIMEOUT :: unit CommandResult \<times> event list))
   \<and> errorCode (fst (executeAndParse garbage_env ''list disk'' raising_parser None)) = Some ''PARSE_ERROR''
   \<and> details (fst (executeAndParse garbage_env ''list disk'' raising_parser None))
       = Some ''Could not find disk list header in output''
   \<and> details (fst (executeAndParse garbage_env ''list disk'' raising_parser None))
       \<noteq> Some ''Microsoft DiskPart version 10.0''"
  by (simp add: executeAndParse_def garbage_env_run split_beta Let_def raising_parser_def
      exn_text_def)


section \<open>Command builder: validation\<close>

lemma upper_of_ascii: "c < 128 \<Longrightarrow> \<exists>d. upper_of table c = [d]"
  by (simp add: upper_of_def)

lemma is_single_upper_ascii:
  assumes "ascii s"
  shows "is_single_upper (toUpperCase_cp table s) \<longleftrightarrow> single_letter s"
proof (cases s)
  case Nil
  then show ?thesis by (simp add: is_single_upper_def toUpperCase_cp_def single_letter_def)
next
  case (Cons c cs)
  then have c: "c < 128" using assms by (simp add: ascii_def)
  show ?thesis
  proof (cases cs)
    case Nil
    then show ?thesis
      using Cons c
      by (auto simp: is_single_upper_def toUpperCase_cp_def single_letter_def upper_of_def)
  next
    case (Cons d ds)
    then have "d < 128" using assms \<open>s = c # cs\<close> by (simp add: ascii_def)
    then obtain c' d' where "upper_of table c = [c']" "upper_of table d = [d']"
      using c upper_of_ascii by blast
    then show ?thesis
      using Cons \<open>s = c # cs\<close>
      by (simp add: is_single_upper_def toUpperCase_cp_def single_letter_def)
  qed
qed

text \<open>
  Claim C4 fails on the code for one of the four names. The list of valid names holds
  "exFAT" in mixed case, and the input is compared with it after being upper-cased, so
  no casing of exFAT is accepted: the builder raises \<open>InvalidCommandError\<close> for it. The
  other names behave as the claim says.
\<close>

theorem buildFormatVolumeCommand_exFAT:
  "buildFormatVolumeCommand ''exFAT'' None None =
     Inl (InvalidCommandError
            ''Invalid file system: exFAT. Must be one of: NTFS, FAT32, exFAT, FAT'' None)
   \<and> buildFormatVolumeCommand ''EXFAT'' None None =
     Inl (InvalidCommandError
            ''Invalid file system: EXFAT. Must be one of: NTFS, FAT32, exFAT, FAT'' None)
   \<and> buildFormatVolumeCommand ''ntfs'' None None = Inr ''format fs=NTFS quick''"
  by (simp add: buildFormatVolumeCommand_def toUpperCase_def to_upper_def upper_letters_def
      lower_letters_def validFileSystems_def)

text \<open>
  The builders raise \<open>InvalidCommandError\<close>, and so return no script, on these invalid
  parameters: a disk number that is not an integer or is negative, a partition number
  below 1, a size (to create, to extend by, to shrink by, or the minimum to shrink by)
  that is zero or negative, a drive letter made of ASCII characters that is not one
  letter of either case, and a label longer than 32 characters for NTFS or 11 for any
  other file-system name.
\<close>

lemma builders_reject_invalid:
  "(\<not> isInteger n \<or> lt n 0 \<longrightarrow> raises_invalid (buildSelectDiskCommand str n))
   \<and> (lt n 1 \<longrightarrow> raises_invalid (buildSelectPartitionCommand str n))
   \<and> (le n 0 \<longrightarrow> raises_invalid (buildCreatePartitionCommand str (Some n)))
   \<and> (le n 0 \<longrightarrow> raises_invalid (buildExtendPartitionCommand str (Some n)))
   \<and> (le n 0 \<longrightarrow> raises_invalid (buildShrinkPartitionCommand str n minimum))
   \<and> (le n 0 \<longrightarrow> raises_invalid (buildShrinkPartitionCommand str desired (Some n)))
   \<and> (ascii letter \<and> \<not> single_letter letter \<longrightarrow>
        raises_invalid (buildAssignLetterCommand table letter))
   \<and> (ascii letter \<and> \<not> single_letter letter \<longrightarrow>
        raises_invalid (buildRemoveLetterCommand table letter))
   \<and> (length label > (if toUpperCase fileSystem = ''NTFS'' then 32 else 11) \<longrightarrow>
        raises_invalid (buildFormatVolumeCommand fileSystem (Some label) quick))"
proof (intro conjI impI)
  show "raises_invalid (buildSelectDiskCommand str n)" if "\<not> isInteger n \<or> lt n 0"
    using that by (auto simp: buildSelectDiskCommand_def raises_invalid_def InvalidCommandError_def)
  show "raises_invalid (buildSelectPartitionCommand str n)" if "lt n 1"
    using that
    by (auto simp: buildSelectPartitionCommand_def raises_invalid_def InvalidCommandError_def)
  show "raises_invalid (buildCreatePartitionCommand str (Some n))" if "le n 0"
    using that
    by (auto simp: buildCreatePartitionCommand_def raises_invalid_def InvalidCommandError_def)
  show "raises_invalid (buildExtendPartitionCommand str (Some n))" if "le n 0"
    using that
    by (auto simp: buildExtendPartitionCommand_def raises_invalid_def InvalidCommandError_def)
  show "raises_invalid (buildShrinkPartitionCommand str n minimum)" if "le n 0"
    using that
    by (auto simp: buildShrinkPartitionCommand_def raises_invalid_def InvalidCommandError_def)
  show "raises_invalid (buildShrinkPartitionCommand str desired (Some n))" if "le n 0"
    using that
    by (auto simp: buildShrinkPartitionCommand_def raises_invalid_def InvalidCommandError_def)
  show "raises_invalid (buildAssignLetterCommand table letter)"
    if "ascii letter \<and> \<not> single_letter letter"
    using that is_single_upper_ascii [of letter table]
    by (simp add: buildAssignLetterCommand_def raises_invalid_def InvalidCommandError_def)
  show "raises_invalid (buildRemoveLetterCommand table letter)"
    if "ascii letter \<and> \<not> single_letter letter"
    using that is_single_upper_ascii [of letter table]
    by (simp add: buildRemoveLetterCommand_def raises_invalid_def InvalidCommandError_def)
  show "raises_invalid (buildFormatVolumeCommand fileSystem (Some label) quick)"
    if "length label > (if toUpperCase fileSystem = ''NTFS'' then 32 else 11)"
  proof -
    from that have "label \<noteq> []" by auto
    then show ?thesis
      using that
      by (auto simp: buildFormatVolumeCommand_def raises_invalid_def InvalidCommandError_def Let_def)
  qed
qed

lemma builders_reject_invalid_sample:
  "lt (Finite (- 1)) 0
   \<and> raises_invalid (buildSelectDiskCommand (\<lambda>n. ''-1'') (Finite (- 1)))
   \<and> raises_invalid (buildSelectPartitionCommand (\<lambda>n. ''-1'') (Finite (- 1)))
   \<and> raises_invalid (buildCreatePartitionCommand (\<lambda>n. ''-1'') (Some (Finite (- 1))))
   \<and> raises_invalid (buildExtendPartitionCommand (\<lambda>n. ''-1'') (Some (Finite (- 1))))
   \<and> raises_invalid (buildShrinkPartitionCommand (\<lambda>n. ''-1'') (Finite (- 1)) None)
   \<and> raises_invalid (buildShrinkPartitionCommand (\<lambda>n. ''-1'') (Finite 100) (Some (Finite (- 1))))
   \<and> ascii [65, 66] \<and> \<not> single_letter [65, 66]
   \<and> raises_invalid (buildAssignLetterCommand (\<lambda>c. [c]) [65, 66])
   \<and> raises_invalid (buildRemoveLetterCommand (\<lambda>c. [c]) [65, 66])
   \<and> length ''BACKUP_DISK_2024'' > 11
   \<and> raises_invalid (buildFormatVolumeCommand ''fat32'' (Some ''BACKUP_DISK_2024'') None)"
  using builders_reject_invalid
    [where n = "Finite (- 1)" and str = "\<lambda>n. ''-1''" and minimum = None
       and desired = "Finite 100" and letter = "[65, 66]" and table = "\<lambda>c. [c]"
       and label = "''BACKUP_DISK_2024''" and fileSystem = "''fat32''" and quick = None]
  by (simp add: single_letter_def ascii_def upper_letters_def lower_letters_def toUpperCase_def
      to_upper_def)

text \<open>
  Claim C8 fails on the code for the two drive-letter builders. The argument is
  upper-cased before it is tested against \<open>/^[A-Z]$/\<close>, and the upper case of U+0131
  (dotless i) is \<open>I\<close>, that of U+017F (long s) is \<open>S\<close>. Neither string is a single letter
  A to Z in any case, yet the builders raise nothing and return the scripts
  "assign letter=I" and "remove letter=S", whatever the upper case of the other
  characters beyond ASCII is.
\<close>

theorem letter_builders_accept_non_letters:
  "\<not> single_letter [0x131] \<and> \<not> single_letter [0x17F]
   \<and> buildAssignLetterCommand table [0x131] = Inr (widen ''assign letter=I'')
   \<and> buildRemoveLetterCommand table [0x131] = Inr (widen ''remove letter=I'')
   \<and> buildAssignLetterCommand table [0x17F] = Inr (widen ''assign letter=S'')
   \<and> buildRemoveLetterCommand table [0x17F] = Inr (widen ''remove letter=S'')"
  by (simp add: single_letter_def buildAssignLetterCommand_def buildRemoveLetterCommand_def
      toUpperCase_cp_def upper_of_def is_single_upper_def widen_def)

section \<open>Output parser: finding the header\<close>

lemma str_includes_sublist: "str_includes hay needle \<longleftrightarrow> sublist needle hay"
  by (induction hay) (simp_all add: sublist_Cons_right)

lemma sublist_dropWhile_head:
  assumes "sublist (a # m) l" and "\<not> P a"
  shows "sublist (a # m) (dropWhile P l)"
  using assms(1)
proof (induction l)
  case Nil
  then show ?case by simp
next
  case (Cons c cs)
  show ?case
  proof (cases "P c")
    case True
    then have "\<not> prefix (a # m) (c # cs)" using assms(2) by auto
    then have "sublist (a # m) cs" using Cons.prems by (auto simp: sublist_Cons_right)
    then show ?thesis using Cons.IH True by simp
  next
    case False
    then show ?thesis using Cons.prems by simp
  qed
qed

lemma sublist_trim:
  assumes "m \<noteq> []" and "\<not> is_space (hd m)" and "\<not> is_space (last m)"
  shows "sublist m (trim l) \<longleftrightarrow> sublist m l"
proof
  assume "sublist m (trim l)"
  then have "sublist (rev m) (dropWhile is_space (rev (dropWhile is_space l)))"
    by (simp add: trim_def sublist_rev_right)
  then have "sublist (rev m) (rev (dropWhile is_space l))"
    using sublist_dropWhile sublist_order.order_trans by blast
  then have "sublist m (dropWhile is_space l)" by simp
  then show "sublist m l"
    using sublist_dropWhile sublist_order.order_trans by blast
next
  assume a: "sublist m l"
  obtain a m' where m: "m = a # m'" using assms(1) by (cases m) auto
  then have "sublist m (dropWhile is_space l)"
    using a assms(2) sublist_dropWhile_head [of a m' l is_space] by simp
  then have r: "sublist (rev m) (rev (dropWhile is_space l))" by simp
  obtain b n' where n: "rev m = b # n'" using assms(1) by (cases "rev m") auto
  then have "b = last m" using assms(1) by (metis last_rev list.sel(1) rev_rev_ident hd_rev)
  then have "\<not> is_space b" using assms(3) by simp
  then have "sublist (rev m) (dropWhile is_space (rev (dropWhile is_space l)))"
    using r n sublist_dropWhile_head [of b n' _ is_space] by simp
  then show "sublist m (trim l)" by (simp add: trim_def sublist_rev_right)
qed

lemma split_on_nonempty: "split_on d s \<noteq> []"
  by (induction s) (auto split: list.splits)

lemma hd_split_on: "hd (split_on d s) = takeWhile (\<lambda>x. x \<noteq> d) s"
  by (induction s) (auto split: list.splits simp: split_on_nonempty)

lemma prefix_takeWhile_iff:
  assumes "d \<notin> set m"
  shows "prefix m (takeWhile (\<lambda>x. x \<noteq> d) s) \<longleftrightarrow> prefix m s"
  using assms
proof (induction s arbitrary: m)
  case Nil
  then show ?case by simp
next
  case (Cons c cs)
  then show ?case by (cases m) auto
qed

lemma sublist_split_on:
  assumes "d \<notin> set m"
  shows "(\<exists>l \<in> set (split_on d s). sublist m l) \<longleftrightarrow> sublist m s"
proof (induction s)
  case Nil
  then show ?case by simp
next
  case (Cons c cs)
  show ?case
  proof (cases "c = d")
    case True
    have "prefix m (d # cs) \<longleftrightarrow> m = []"
      using assms by (cases m) auto
    then show ?thesis using True Cons.IH by (auto simp: sublist_Cons_right)
  next
    case False
    obtain l ls where sp: "split_on d cs = l # ls"
      using split_on_nonempty [of d cs] by (cases "split_on d cs") auto
    then have l: "l = takeWhile (\<lambda>x. x \<noteq> d) cs" using hd_split_on [of d cs] by simp
    have p: "prefix m (c # l) \<longleftrightarrow> prefix m (c # cs)"
    proof (cases m)
      case Nil
      then show ?thesis by simp
    next
      case (Cons a m')
      then have "d \<notin> set m'" using assms by simp
      then show ?thesis using Cons l prefix_takeWhile_iff [of d m' cs] by simp
    qed
    have "(\<exists>x \<in> set (split_on d (c # cs)). sublist m x)
          \<longleftrightarrow> sublist m (c # l) \<or> (\<exists>x \<in> set ls. sublist m x)"
      using False sp by simp
    also have "\<dots> \<longleftrightarrow> prefix m (c # l) \<or> sublist m l \<or> (\<exists>x \<in> set ls. sublist m x)"
      by (auto simp: sublist_Cons_right)
    also have "\<dots> \<longleftrightarrow> prefix m (c # cs) \<or> (\<exists>x \<in> set (split_on d cs). sublist m x)"
      using p sp by auto
    also have "\<dots> \<longleftrightarrow> sublist m (c # cs)"
      using Cons.IH by (auto simp: sublist_Cons_right)
    finally show ?thesis .
  qed
qed

lemma findIndex_None_iff: "findIndex p xs = None \<longleftrightarrow> (\<forall>x \<in> set xs. \<not> p x)"
  by (induction xs) auto

lemma dataLines_None_iff:
  assumes "m \<noteq> []" and "\<not> is_space (hd m)" and "\<not> is_space (last m)" and "CHR 0x0A \<notin> set m"
  shows "dataLines m out = None \<longleftrightarrow> \<not> str_includes out m"
proof -
  have "dataLines m out = None
        \<longleftrightarrow> findIndex (\<lambda>line. str_includes line m) (map trim (split_on CHR 0x0A out)) = None"
    by (simp add: dataLines_def Let_def split: option.splits)
  also have "\<dots> \<longleftrightarrow> (\<forall>l \<in> set (split_on CHR 0x0A out). \<not> sublist m (trim l))"
    by (simp add: findIndex_None_iff str_includes_sublist)
  also have "\<dots> \<longleftrightarrow> (\<forall>l \<in> set (split_on CHR 0x0A out). \<not> sublist m l)"
    using sublist_trim [OF assms(1-3)] by simp
  also have "\<dots> \<longleftrightarrow> \<not> sublist m out"
    using sublist_split_on [OF assms(4), of out] by blast
  finally show ?thesis by (simp add: str_includes_sublist)
qed

section \<open>Output parser: sample rows\<close>

lemmas str_defs = toUpperCase_def toLowerCase_def to_upper_def to_lower_def upper_letters_def
  lower_letters_def is_space_def is_digit_def trim_def startsWith_def str_of_def or_else_def
  nth_opt_def slice_def

lemmas re_defs = plus_def chr_eq_def group_def sizeRe_def sizeToken_def diskRe_def

lemmas size_defs = parseSize_def parseInt_def digits_value_def digit_value_def multipliers_def

lemma disk_docstring_lines:
  "dataLines ''Disk ###'' disk_list_docstring
     = Some [''Disk 0    Online          238 GB      0 B        *'']"
  by (simp add: dataLines_def disk_list_docstring_def trim_def is_space_def)

lemma disk_row_star:
  "diskRow ''Disk 0    Online          238 GB      0 B        *'' =
     Some \<lparr>d_id = Finite 0, d_status = Online, d_size = Finite (238 * 1024 ^ 3), d_free = Finite 0,
           isSystemDisk = False, isBootDisk = False, diskType = Dynamic, partitionStyle = MBR,
           partitions = []\<rparr>"
  by (simp add: diskRow_def normalizeStatus_def str_defs re_defs size_defs)

lemma disk_row_star_dyn:
  "diskRow ''Disk 0    Online          238 GB      0 B   *'' =
     Some \<lparr>d_id = Finite 0, d_status = Online, d_size = Finite (238 * 1024 ^ 3), d_free = Finite 0,
           isSystemDisk = False, isBootDisk = False, diskType = Dynamic, partitionStyle = MBR,
           partitions = []\<rparr>"
  by (simp add: diskRow_def normalizeStatus_def str_defs re_defs size_defs)

lemma volume_docstring_lines:
  "dataLines ''Volume ###'' volume_list_docstring
     = Some [''Volume 2         Recovery     NTFS   Partition    499 MB  Healthy    Hidden'']"
  by (simp add: dataLines_def volume_list_docstring_def trim_def is_space_def)

lemma volume_row_no_letter:
  "volumeRow ''Volume 2         Recovery     NTFS   Partition    499 MB  Healthy    Hidden''
     = Some \<lparr>v_letter = None, v_label = None, v_fileSystem = ''NTFS'', v_type = VPartition,
             v_size = Finite (499 * 1024 ^ 2), v_status = VHealthy, v_info = ''Hidden''\<rparr>"
  by (simp add: volumeRow_def knownFileSystems_def normalizeVolumeType_def Let_def
      str_defs re_defs size_defs)

lemma volume_row_exfat:
  "volumeRow ''Volume 4     F   My Stick     exFAT  Removable     58 GB  Healthy''
     = Some \<lparr>v_letter = Some ''F'', v_label = Some ''My'', v_fileSystem = ''Stick'',
             v_type = VPartition, v_size = Finite 0, v_status = VFailed, v_info = ''Healthy''\<rparr>"
  by (simp add: volumeRow_def knownFileSystems_def normalizeVolumeType_def Let_def
      str_defs re_defs size_defs)

lemma disk_garbage_lines:
  "dataLines ''Disk ###'' disk_list_garbage
     = Some [''Disk one  is not a row of the table'',
             ''Disk 1    Online          931 GB   931 GB'']"
  by (simp add: dataLines_def disk_list_garbage_def trim_def is_space_def)

lemma disk_row_garbage: "diskRow ''Disk one  is not a row of the table'' = None"
  by (simp add: diskRow_def str_defs re_defs)

lemma disk_row_good:
  "diskRow ''Disk 1    Online          931 GB   931 GB'' =
     Some \<lparr>d_id = Finite 1, d_status = Online, d_size = Finite (931 * 1024 ^ 3),
           d_free = Finite (931 * 1024 ^ 3), isSystemDisk = False, isBootDisk = False,
           diskType = Basic, partitionStyle = MBR, partitions = []\<rparr>"
  by (simp add: diskRow_def normalizeStatus_def str_defs re_defs size_defs)

lemma volume_garbage_lines:
  "dataLines ''Volume ###'' volume_list_garbage
     = Some [''Volume 0     D   Data         NTFS   Partition    100 GB  Healthy'',
             ''Volume is not a row'']"
  by (simp add: dataLines_def volume_list_garbage_def trim_def is_space_def)

lemma volume_row_garbage: "volumeRow ''Volume is not a row'' = None"
  by (simp add: volumeRow_def str_defs)

lemma volume_row_good:
  "volumeRow ''Volume 0     D   Data         NTFS   Partition    100 GB  Healthy''
     = Some \<lparr>v_letter = Some ''D'', v_label = Some ''Data'', v_fileSystem = ''NTFS'',
             v_type = VPartition, v_size = Finite (100 * 1024 ^ 3), v_status = VHealthy,
             v_info = []\<rparr>"
  by (simp add: volumeRow_def knownFileSystems_def normalizeVolumeType_def Let_def
      str_defs re_defs size_defs)

lemma partition_garbage_lines:
  "dataLines ''Partition ###'' partition_list_garbage
     = Some [''no partitions to show here'',
             ''Partition 1    Primary            100 MB  1024 KB'']"
  by (simp add: dataLines_def partition_list_garbage_def trim_def is_space_def)

lemma partition_row_garbage: "partitionRow ''no partitions to show here'' = None"
  by (simp add: partitionRow_def str_defs)

lemma partition_row_good:
  "partitionRow ''Partition 1    Primary            100 MB  1024 KB'' =
     Some \<lparr>p_id = Finite 1, p_type = Primary, p_size = Finite (100 * 1024 ^ 2),
           p_offset = Finite (1024 * 1024), p_status = PHealthy,
           p_fileSystem = None, p_label = None, p_driveLetter = None\<rparr>"
  by (simp add: partitionRow_def normalizePartitionType_def Let_def str_defs re_defs size_defs)







section \<open>Regular expressions: the groups of a match\<close>

text \<open>
  A match of an expression binds every group that sits outside its quantified and
  optional pieces: the captures only grow along a match, and such a group is passed on
  every path.
\<close>

lemma case_some_cases:
  assumes "(case x of Some res \<Rightarrow> Some res | None \<Rightarrow> y) = Some res"
  shows "y = Some res \<or> x = Some res"
  using assms by (cases x) (simp_all only: option.case simp_thms)

lemma star_step:
  assumes "star g body k (c # cs) caps = Some res"
  shows "k (c # cs) caps = Some res
         \<or> body (\<lambda>s' caps'. if length s' < length (c # cs) then star g body k s' caps' else None)
              (c # cs) caps = Some res"
proof (cases g)
  case True
  from assms [unfolded star.simps(2)] True show ?thesis
    by (simp only: if_True) (rule case_some_cases)
next
  case False
  from assms [unfolded star.simps(2)] False have
    "body (\<lambda>s' caps'. if length s' < length (c # cs) then star g body k s' caps' else None)
              (c # cs) caps = Some res \<or> k (c # cs) caps = Some res"
    by (simp only: if_False) (rule case_some_cases)
  then show ?thesis by (simp only: disj_commute)
qed

lemma star_keeps:
  assumes body: "\<And>k s caps res. body k s caps = Some res \<Longrightarrow>
                   \<exists>s' caps'. k s' caps' = Some res \<and> fst ` set caps \<subseteq> fst ` set caps'"
  shows "star g body k s caps = Some res \<Longrightarrow>
           \<exists>s' caps'. k s' caps' = Some res \<and> fst ` set caps \<subseteq> fst ` set caps'"
proof (induction s arbitrary: caps rule: length_induct)
  case (1 s)
  show ?case
  proof (cases s)
    case Nil
    then have "k [] caps = Some res" using "1.prems" by simp
    then have "k [] caps = Some res \<and> fst ` set caps \<subseteq> fst ` set caps" by simp
    then show ?thesis by (intro exI)
  next
    case (Cons c cs)
    let ?k = "\<lambda>s' caps'. if length s' < length (c # cs) then star g body k s' caps' else None"
    have st: "star g body k (c # cs) caps = Some res" using "1.prems" Cons by (simp only:)
    from star_step [OF st]
    have "k (c # cs) caps = Some res \<or> body ?k (c # cs) caps = Some res" .
    then show ?thesis
    proof
      assume "k (c # cs) caps = Some res"
      then have "k (c # cs) caps = Some res \<and> fst ` set caps \<subseteq> fst ` set caps" by simp
      then show ?thesis by (intro exI)
    next
      assume "body ?k (c # cs) caps = Some res"
      from body [OF this] obtain s' caps'
        where a: "?k s' caps' = Some res" and b: "fst ` set caps \<subseteq> fst ` set caps'"
        by (elim exE conjE)
      from a have l: "length s' < length s" and st: "star g body k s' caps' = Some res"
        using Cons by (simp_all split: if_splits)
      from "1.IH" [rule_format, OF l st] obtain s'' caps''
        where c: "k s'' caps'' = Some res" and d: "fst ` set caps' \<subseteq> fst ` set caps''"
        by (elim exE conjE)
      from b d have "fst ` set caps \<subseteq> fst ` set caps''" by (rule subset_trans)
      with c have "k s'' caps'' = Some res \<and> fst ` set caps \<subseteq> fst ` set caps''" by simp
      then show ?thesis by (intro exI)
    qed
  qed
qed


lemma rmatch_binds:
  "rmatch ci r k s caps = Some res \<Longrightarrow>
     \<exists>s' caps'. k s' caps' = Some res \<and> set (binds r) \<union> fst ` set caps \<subseteq> fst ` set caps'"
proof (induction r arbitrary: k s caps res)
  case (Lit l)
  then obtain s' where "k s' caps = Some res" by (auto split: option.splits)
  then have "k s' caps = Some res \<and> set (binds (Lit l)) \<union> fst ` set caps \<subseteq> fst ` set caps"
    by simp
  then show ?case by (intro exI)
next
  case (Cls cl)
  then obtain s' where "k s' caps = Some res" by (auto split: list.splits if_splits)
  then have "k s' caps = Some res \<and> set (binds (Cls cl)) \<union> fst ` set caps \<subseteq> fst ` set caps"
    by simp
  then show ?case by (intro exI)
next
  case (Seq r1 r2)
  from Seq.prems have "rmatch ci r1 (rmatch ci r2 k) s caps = Some res" by simp
  from Seq.IH(1) [OF this] obtain s1 caps1 where 1: "rmatch ci r2 k s1 caps1 = Some res"
      and 2: "set (binds r1) \<union> fst ` set caps \<subseteq> fst ` set caps1"
    by (elim exE conjE)
  from Seq.IH(2) [OF 1] obtain s2 caps2 where 3: "k s2 caps2 = Some res"
      and 4: "set (binds r2) \<union> fst ` set caps1 \<subseteq> fst ` set caps2"
    by (elim exE conjE)
  have "set (binds (Seq r1 r2)) \<union> fst ` set caps \<subseteq> fst ` set caps2"
    using 2 4 by (simp only: binds.simps set_append) blast
  with 3 have "k s2 caps2 = Some res
               \<and> set (binds (Seq r1 r2)) \<union> fst ` set caps \<subseteq> fst ` set caps2" by simp
  then show ?case by (intro exI)
next
  case (Star g r)
  have b: "\<exists>s' caps'. k' s' caps' = Some res' \<and> fst ` set caps0 \<subseteq> fst ` set caps'"
    if "rmatch ci r k' s0 caps0 = Some res'" for k' s0 caps0 res'
  proof -
    from Star.IH [OF that] obtain s' caps' where "k' s' caps' = Some res'"
        and "set (binds r) \<union> fst ` set caps0 \<subseteq> fst ` set caps'"
      by (elim exE conjE)
    then have "k' s' caps' = Some res' \<and> fst ` set caps0 \<subseteq> fst ` set caps'" by simp
    then show ?thesis by (intro exI)
  qed
  from Star.prems have "star g (rmatch ci r) k s caps = Some res" by (simp only: rmatch.simps)
  from star_keeps [of "rmatch ci r", OF b this]
  show ?case by (simp only: binds.simps list.set Un_empty_left)
next
  case (Opt r)
  let ?k = "\<lambda>s' caps'. if length s' < length s then k s' caps' else None"
  from Opt.prems have "(case rmatch ci r ?k s caps of Some res \<Rightarrow> Some res | None \<Rightarrow> k s caps)
                         = Some res"
    by (simp only: rmatch.simps)
  from case_some_cases [OF this] show ?case
  proof
    assume "k s caps = Some res"
    then have "k s caps = Some res \<and> set (binds (Opt r)) \<union> fst ` set caps \<subseteq> fst ` set caps"
      by simp
    then show ?thesis by (intro exI)
  next
    assume "rmatch ci r ?k s caps = Some res"
    from Opt.IH [OF this] obtain s' caps' where a: "?k s' caps' = Some res"
        and b: "set (binds r) \<union> fst ` set caps \<subseteq> fst ` set caps'"
      by (elim exE conjE)
    from a have "k s' caps' = Some res" by (simp split: if_splits)
    with b have "k s' caps' = Some res
                 \<and> set (binds (Opt r)) \<union> fst ` set caps \<subseteq> fst ` set caps'" by simp
    then show ?thesis by (intro exI)
  qed
next
  case (Group n r)
  let ?k = "\<lambda>s' caps'. k s' ((n, take (length s - length s') s) # caps')"
  from Group.prems have "rmatch ci r ?k s caps = Some res" by (simp only: rmatch.simps)
  from Group.IH [OF this] obtain s' caps' where a: "?k s' caps' = Some res"
      and b: "set (binds r) \<union> fst ` set caps \<subseteq> fst ` set caps'"
    by (elim exE conjE)
  have "set (binds (Group n r)) \<union> fst ` set caps
          \<subseteq> fst ` set ((n, take (length s - length s') s) # caps')"
    using b by auto
  with a have "k s' ((n, take (length s - length s') s) # caps') = Some res
       \<and> set (binds (Group n r)) \<union> fst ` set caps
          \<subseteq> fst ` set ((n, take (length s - length s') s) # caps')" by simp
  then show ?case by (intro exI)
qed

lemma rmatch_top_binds:
  assumes "rmatch ci r (\<lambda>s caps. Some caps) s [] = Some m"
  shows "set (binds r) \<subseteq> fst ` set m"
  using rmatch_binds [OF assms] by auto

lemma str_match_binds: "str_match ci r s = Some m \<Longrightarrow> set (binds r) \<subseteq> fst ` set m"
proof (induction s)
  case Nil
  then show ?case using rmatch_top_binds [of ci r "[]" m] by simp
next
  case (Cons c cs)
  show ?case
  proof (cases "rmatch ci r (\<lambda>s caps. Some caps) (c # cs) []")
    case None
    then show ?thesis using Cons by simp
  next
    case (Some a)
    then have "a = m" using Cons.prems by simp
    then show ?thesis using Some rmatch_top_binds by simp
  qed
qed

lemma binds_diskRe: "binds diskRe = [1, 2, 3, 4]"
  by (simp add: diskRe_def sizeToken_def plus_def)

lemma diskRe_groups:
  assumes "str_match False diskRe line = Some m"
  shows "\<exists>a b c d. group m 1 = Some a \<and> group m 2 = Some b \<and> group m 3 = Some c
                    \<and> group m 4 = Some d"
proof -
  have "{1, 2, 3, 4} \<subseteq> fst ` set m" using str_match_binds [OF assms] by (simp add: binds_diskRe)
  then have "map_of m 1 \<noteq> None" "map_of m 2 \<noteq> None" "map_of m 3 \<noteq> None" "map_of m 4 \<noteq> None"
    by (simp_all add: map_of_eq_None_iff)
  then show ?thesis by (auto simp: group_def)
qed

lemma diskRow_shape: "diskRow line = None \<longleftrightarrow> \<not> disk_row_shape line"
proof (cases "startsWith line ''Disk ''")
  case False
  then show ?thesis by (simp add: diskRow_def disk_row_shape_def)
next
  case True
  then have ne: "line \<noteq> []" by (auto simp: startsWith_def)
  show ?thesis
  proof (cases "str_match False diskRe line")
    case None
    then show ?thesis using True by (simp add: diskRow_def disk_row_shape_def)
  next
    case (Some m)
    then obtain a b c d where "group m 1 = Some a" "group m 2 = Some b" "group m 3 = Some c"
        "group m 4 = Some d"
      using diskRe_groups by blast
    then show ?thesis using True ne Some by (simp add: diskRow_def disk_row_shape_def)
  qed
qed



lemma volumeRow_shape: "volumeRow line = None \<longleftrightarrow> \<not> volume_row_shape line"
proof (cases "startsWith line ''Volume ''")
  case False
  then show ?thesis by (simp add: volumeRow_def volume_row_shape_def)
next
  case True
  then have "line \<noteq> []" by (auto simp: startsWith_def)
  then show ?thesis using True by (auto simp: volumeRow_def volume_row_shape_def Let_def)
qed

lemma partitionRow_shape: "partitionRow line = None \<longleftrightarrow> \<not> partition_row_shape line"
proof (cases "startsWith line ''Partition ''")
  case False
  then show ?thesis by (simp add: partitionRow_def partition_row_shape_def)
next
  case True
  then have "line \<noteq> []" by (auto simp: startsWith_def)
  then show ?thesis using True by (auto simp: partitionRow_def partition_row_shape_def Let_def)
qed

lemma map_filter_shape:
  assumes "\<And>l. f l = None \<longleftrightarrow> \<not> P l"
  shows "List.map_filter f ls = map (the \<circ> f) (filter P ls)"
proof -
  have "filter (\<lambda>l. f l \<noteq> None) ls = filter P ls" using assms by (intro filter_cong) auto
  then show ?thesis by (simp add: List.map_filter_def)
qed


section \<open>The size pattern\<close>




























section \<open>Output parser: rows that pass the test of the loop without being rows\<close>

lemma partition_junk_lines:
  "dataLines ''Partition ###'' partition_list_junk
     = Some [''Partition 1    Primary            100 MB  1024 KB'',
             ''Partition is not a row here'']"
  by (simp add: dataLines_def partition_list_junk_def trim_def is_space_def)

lemma partition_row_junk:
  "partitionRow ''Partition is not a row here'' =
     Some \<lparr>p_id = NaN, p_type = Primary, p_size = Finite 0,
           p_offset = Finite 0, p_status = PHealthy,
           p_fileSystem = None, p_label = None, p_driveLetter = None\<rparr>"
  by (simp add: partitionRow_def normalizePartitionType_def Let_def str_defs re_defs size_defs)

lemma volume_row_junk:
  "volumeRow ''Volume is not a row of the table''
     = Some \<lparr>v_letter = None, v_label = Some ''a'', v_fileSystem = ''row'',
             v_type = VPartition, v_size = Finite 0, v_status = VFailed, v_info = []\<rparr>"
  by (simp add: volumeRow_def knownFileSystems_def normalizeVolumeType_def Let_def
      str_defs re_defs size_defs)





section \<open>Output parser: the claims\<close>

text \<open>
  Claim C2 fails on the code. The regular expression of \<open>parseListDisk\<close> takes a star
  wherever white space leads to it, so the first optional group takes the lone star of
  the documented row although it stands under \<open>Gpt\<close>: the record says \<open>Dynamic\<close> and
  \<open>MBR\<close>, where the claim (and the table) say \<open>Basic\<close> and \<open>GPT\<close>. Identifier, status and
  sizes are as the claim says. The same row with its star under \<open>Dyn\<close> gives the same
  record: the column of a star is not looked at.
\<close>

theorem parseListDisk_docstring:
  "parseListDisk disk_list_docstring =
     Inr [\<lparr>d_id = Finite 0, d_status = Online, d_size = Finite (238 * 1024 ^ 3), d_free = Finite 0,
           isSystemDisk = False, isBootDisk = False, diskType = Dynamic, partitionStyle = MBR,
           partitions = []\<rparr>]
   \<and> diskRow ''Disk 0    Online          238 GB      0 B   *''
     = diskRow ''Disk 0    Online          238 GB      0 B        *''"
  by (simp add: parseListDisk_def disk_docstring_lines List.map_filter_simps disk_row_star
      disk_row_star_dyn)

text \<open>
  Claim C6 fails on the code. The label is always cut from the fourth token on, so in
  the documented row without a drive letter the label \<open>Recovery\<close>, which is the third
  token, is lost. And \<open>exFAT\<close> is never found as the anchor: the token is compared in
  upper case with a list that holds the name in mixed case, so a row with that file
  system falls back to the fifth token as its anchor.
\<close>

theorem parseListVolume_docstring:
  "parseListVolume volume_list_docstring =
     Inr [\<lparr>v_letter = None, v_label = None, v_fileSystem = ''NTFS'', v_type = VPartition,
           v_size = Finite (499 * 1024 ^ 2), v_status = VHealthy, v_info = ''Hidden''\<rparr>]
   \<and> volumeRow ''Volume 4     F   My Stick     exFAT  Removable     58 GB  Healthy''
     = Some \<lparr>v_letter = Some ''F'', v_label = Some ''My'', v_fileSystem = ''Stick'',
             v_type = VPartition, v_size = Finite 0, v_status = VFailed, v_info = ''Healthy''\<rparr>"
  by (simp add: parseListVolume_def volume_docstring_lines List.map_filter_simps
      volume_row_no_letter volume_row_exfat)

text \<open>
  Claim C9, as the code has it. Each list parser raises exactly when its header marker
  does not occur in the text, and what it raises is a \<open>ParseError\<close>. When the marker
  occurs the parser does not raise, and a line after the header and the separator is
  skipped exactly when it fails the test of the loop: the keyword at the start of the
  line and, for disks, a match of the row pattern, for volumes at least 7 tokens, for
  partitions at least 5. Every other line gives one record, in the order of the lines,
  whatever else the line holds.
\<close>

theorem list_parsers_header_and_rows:
  "(isl (parseListDisk out) \<longleftrightarrow> \<not> str_includes out ''Disk ###'')
   \<and> (isl (parseListVolume out) \<longleftrightarrow> \<not> str_includes out ''Volume ###'')
   \<and> (isl (parseListPartition out) \<longleftrightarrow> \<not> str_includes out ''Partition ###'')
   \<and> (\<forall>err. parseListDisk out = Inl err \<or> parseListVolume out = Inl err
             \<or> parseListPartition out = Inl err \<longrightarrow> err_code err = ''PARSE_ERROR'')
   \<and> (diskRow line = None \<longleftrightarrow> \<not> disk_row_shape line)
   \<and> (volumeRow line = None \<longleftrightarrow> \<not> volume_row_shape line)
   \<and> (partitionRow line = None \<longleftrightarrow> \<not> partition_row_shape line)
   \<and> (\<forall>ls. dataLines ''Disk ###'' out = Some ls \<longrightarrow>
         parseListDisk out = Inr (map (the \<circ> diskRow) (filter disk_row_shape ls)))
   \<and> (\<forall>ls. dataLines ''Volume ###'' out = Some ls \<longrightarrow>
         parseListVolume out = Inr (map (the \<circ> volumeRow) (filter volume_row_shape ls)))
   \<and> (\<forall>ls. dataLines ''Partition ###'' out = Some ls \<longrightarrow>
         parseListPartition out
           = Inr (map (the \<circ> partitionRow) (filter partition_row_shape ls)))"
proof -
  have d: "dataLines ''Disk ###'' out = None \<longleftrightarrow> \<not> str_includes out ''Disk ###''"
    by (rule dataLines_None_iff) (simp_all add: is_space_def)
  have v: "dataLines ''Volume ###'' out = None \<longleftrightarrow> \<not> str_includes out ''Volume ###''"
    by (rule dataLines_None_iff) (simp_all add: is_space_def)
  have p: "dataLines ''Partition ###'' out = None \<longleftrightarrow> \<not> str_includes out ''Partition ###''"
    by (rule dataLines_None_iff) (simp_all add: is_space_def)
  have 1: "isl (parseListDisk out) \<longleftrightarrow> \<not> str_includes out ''Disk ###''"
    by (cases "dataLines ''Disk ###'' out") (use d in \<open>auto simp: parseListDisk_def\<close>)
  have 2: "isl (parseListVolume out) \<longleftrightarrow> \<not> str_includes out ''Volume ###''"
    by (cases "dataLines ''Volume ###'' out") (use v in \<open>auto simp: parseListVolume_def\<close>)
  have 3: "isl (parseListPartition out) \<longleftrightarrow> \<not> str_includes out ''Partition ###''"
    by (cases "dataLines ''Partition ###'' out") (use p in \<open>auto simp: parseListPartition_def\<close>)
  have 4: "err_code err = ''PARSE_ERROR''"
    if "parseListDisk out = Inl err \<or> parseListVolume out = Inl err
        \<or> parseListPartition out = Inl err" for err
    using that
    by (auto simp: parseListDisk_def parseListVolume_def parseListPartition_def ParseError_def
        split: option.splits)
  have 5: "parseListDisk out = Inr (map (the \<circ> diskRow) (filter disk_row_shape ls))"
    if "dataLines ''Disk ###'' out = Some ls" for ls
    using that map_filter_shape [of diskRow disk_row_shape, OF diskRow_shape]
    by (simp add: parseListDisk_def)
  have 6: "parseListVolume out = Inr (map (the \<circ> volumeRow) (filter volume_row_shape ls))"
    if "dataLines ''Volume ###'' out = Some ls" for ls
    using that map_filter_shape [of volumeRow volume_row_shape, OF volumeRow_shape]
    by (simp add: parseListVolume_def)
  have 7: "parseListPartition out
             = Inr (map (the \<circ> partitionRow) (filter partition_row_shape ls))"
    if "dataLines ''Partition ###'' out = Some ls" for ls
    using that map_filter_shape [of partitionRow partition_row_shape, OF partitionRow_shape]
    by (simp add: parseListPartition_def)
  show ?thesis
    using 1 2 3 4 5 6 7 diskRow_shape [of line] volumeRow_shape [of line]
      partitionRow_shape [of line]
    by blast
qed

theorem list_parsers_header_and_rows_witness:
  "isl (parseListDisk ''DiskPart has encountered a problem'')
   \<and> err_code (projl (parseListDisk ''DiskPart has encountered a problem'')) = ''PARSE_ERROR''
   \<and> str_includes disk_list_garbage ''Disk ###''
   \<and> \<not> disk_row_shape ''Disk one  is not a row of the table''
   \<and> disk_row_shape ''Disk 1    Online          931 GB   931 GB''
   \<and> parseListDisk disk_list_garbage =
       Inr [\<lparr>d_id = Finite 1, d_status = Online, d_size = Finite (931 * 1024 ^ 3),
             d_free = Finite (931 * 1024 ^ 3), isSystemDisk = False, isBootDisk = False,
             diskType = Basic, partitionStyle = MBR, partitions = []\<rparr>]
   \<and> \<not> volume_row_shape ''Volume is not a row''
   \<and> parseListVolume volume_list_garbage =
       Inr [\<lparr>v_letter = Some ''D'', v_label = Some ''Data'', v_fileSystem = ''NTFS'',
             v_type = VPartition, v_size = Finite (100 * 1024 ^ 3), v_status = VHealthy,
             v_info = []\<rparr>]
   \<and> \<not> partition_row_shape ''no partitions to show here''
   \<and> parseListPartition partition_list_garbage =
       Inr [\<lparr>p_id = Finite 1, p_type = Primary, p_size = Finite (100 * 1024 ^ 2),
             p_offset = Finite (1024 * 1024), p_status = PHealthy,
           p_fileSystem = None, p_label = None, p_driveLetter = None\<rparr>]"
proof -
  let ?bad = "''DiskPart has encountered a problem''"
  let ?dg = "''Disk one  is not a row of the table''"
  let ?d1 = "''Disk 1    Online          931 GB   931 GB''"
  let ?vg = "''Volume is not a row''"
  let ?v0 = "''Volume 0     D   Data         NTFS   Partition    100 GB  Healthy''"
  let ?pg = "''no partitions to show here''"
  let ?p1 = "''Partition 1    Primary            100 MB  1024 KB''"
  have a: "\<not> str_includes ?bad ''Disk ###''" by simp
  note t0 = list_parsers_header_and_rows [of ?bad]
  from t0 a have b: "isl (parseListDisk ?bad)" by blast
  then obtain err where e: "parseListDisk ?bad = Inl err" by (cases "parseListDisk ?bad") auto
  with t0 have c: "err_code (projl (parseListDisk ?bad)) = ''PARSE_ERROR''" by auto
  note dg = list_parsers_header_and_rows [of disk_list_garbage ?dg]
  note d1 = list_parsers_header_and_rows [of disk_list_garbage ?d1]
  from dg have i: "str_includes disk_list_garbage ''Disk ###''"
    using disk_garbage_lines by (auto simp: parseListDisk_def)
  from dg have sdg: "\<not> disk_row_shape ?dg" using disk_row_garbage by blast
  from d1 have sd1: "disk_row_shape ?d1" using disk_row_good by simp
  from dg have "parseListDisk disk_list_garbage
      = Inr (map (the \<circ> diskRow) (filter disk_row_shape [?dg, ?d1]))"
    using disk_garbage_lines by blast
  then have d: "parseListDisk disk_list_garbage = Inr [the (diskRow ?d1)]"
    using sdg sd1 by (simp only: filter.simps list.map comp_apply if_True if_False)
  note vg = list_parsers_header_and_rows [of volume_list_garbage ?vg]
  note v0 = list_parsers_header_and_rows [of volume_list_garbage ?v0]
  from vg have svg: "\<not> volume_row_shape ?vg" using volume_row_garbage by blast
  from v0 have sv0: "volume_row_shape ?v0" using volume_row_good by simp
  from vg have "parseListVolume volume_list_garbage
      = Inr (map (the \<circ> volumeRow) (filter volume_row_shape [?v0, ?vg]))"
    using volume_garbage_lines by blast
  then have v: "parseListVolume volume_list_garbage = Inr [the (volumeRow ?v0)]"
    using svg sv0 by (simp only: filter.simps list.map comp_apply if_True if_False)
  note pg = list_parsers_header_and_rows [of partition_list_garbage ?pg]
  note p1 = list_parsers_header_and_rows [of partition_list_garbage ?p1]
  from pg have spg: "\<not> partition_row_shape ?pg" using partition_row_garbage by blast
  from p1 have sp1: "partition_row_shape ?p1" using partition_row_good by simp
  from pg have "parseListPartition partition_list_garbage
      = Inr (map (the \<circ> partitionRow) (filter partition_row_shape [?pg, ?p1]))"
    using partition_garbage_lines by blast
  then have p: "parseListPartition partition_list_garbage = Inr [the (partitionRow ?p1)]"
    using spg sp1 by (simp only: filter.simps list.map comp_apply if_True if_False)
  show ?thesis
    using b c i sdg sd1 svg spg d v p
    by (simp only: disk_row_good volume_row_good partition_row_good option.sel simp_thms)
qed

text \<open>
  A partition list with one well-formed row and the line "Partition is not a row here":
  the marker is there, the second line has the keyword and six tokens, and the parser
  returns two records, the second one made of the words of that line. In the same way
  the volume parser makes a record of the line "Volume is not a row of the table".
\<close>

theorem list_parsers_header_and_rows_counterexample:
  "str_includes partition_list_junk ''Partition ###''
   \<and> dataLines ''Partition ###'' partition_list_junk
       = Some [''Partition 1    Primary            100 MB  1024 KB'',
               ''Partition is not a row here'']
   \<and> parseListPartition partition_list_junk =
       Inr [\<lparr>p_id = Finite 1, p_type = Primary, p_size = Finite (100 * 1024 ^ 2),
             p_offset = Finite (1024 * 1024), p_status = PHealthy,
             p_fileSystem = None, p_label = None, p_driveLetter = None\<rparr>,
            \<lparr>p_id = NaN, p_type = Primary, p_size = Finite 0,
             p_offset = Finite 0, p_status = PHealthy,
             p_fileSystem = None, p_label = None, p_driveLetter = None\<rparr>]
   \<and> volumeRow ''Volume is not a row of the table''
       = Some \<lparr>v_letter = None, v_label = Some ''a'', v_fileSystem = ''row'',
               v_type = VPartition, v_size = Finite 0, v_status = VFailed, v_info = []\<rparr>"
proof -
  have "dataLines ''Partition ###'' partition_list_junk \<noteq> None"
    by (simp only: partition_junk_lines) simp
  moreover have "dataLines ''Partition ###'' partition_list_junk = None
                 \<longleftrightarrow> \<not> str_includes partition_list_junk ''Partition ###''"
    by (rule dataLines_None_iff) (simp_all add: is_space_def)
  ultimately have i: "str_includes partition_list_junk ''Partition ###''" by simp
  have p: "parseListPartition partition_list_junk =
       Inr [the (partitionRow ''Partition 1    Primary            100 MB  1024 KB''),
            the (partitionRow ''Partition is not a row here'')]"
    by (simp only: parseListPartition_def partition_junk_lines option.case
        List.map_filter_simps partition_row_good partition_row_junk option.sel)
  show ?thesis
    using i p
    by (simp only: partition_junk_lines partition_row_good partition_row_junk volume_row_junk
        option.sel simp_thms)
qed




end
